theory Spec2Isabelle
  imports Main
begin

section \<open>TweetStream: a resilient streaming connection (src/stream/TweetStream.ts)\<close>

text \<open>
  The class \<^verbatim>\<open>TweetStream\<close> is embedded as a record of its fields and one HOL function
  per method, each taking the instance and returning the updated instance.

  Conventions of the embedding:
  \<^item> Everything a method does to the collaborators of its instance (the Node event emitter it
    inherits from, the request and response handles, the parser, the timers, the connection
    factory) is appended to the field \<open>trace\<close>, in program order.
  \<^item> Subscribed handlers are opaque closures of the caller. A handler is a natural number;
    calling it is recorded as \<open>Deliver\<close> and has no other effect on the instance.
  \<^item> The connection factory is external: its outcome (resolved with a handle pair, or
    rejected) is an argument of the method that awaits it. Each \<^verbatim>\<open>async\<close> method is split
    at its \<^verbatim>\<open>await\<close> into the part before the suspension and the part after it; the method
    itself is their composition, which is what runs when nothing else happens in between.
  \<^item> JavaScript numbers that hold counts and milliseconds are \<open>int\<close>; \<^verbatim>\<open>Infinity\<close> is a
    separate constructor. The subtractions on the retry count round as doubles do
    (\<open>js_sub\<close>).
  \<^item> The timers of the runtime are kept in the field \<open>armed\<close>, apart from the two handles
    of the instance, so that a timer whose handle was overwritten stays armed.
\<close>

subsection \<open>Data\<close>

text \<open>
  The members of \<^verbatim>\<open>ETwitterStreamEvent\<close> that the class emits. \<^verbatim>\<open>on\<close> accepts any
  \<^verbatim>\<open>string | symbol\<close>; every other name is \<open>OtherEvent\<close>.
\<close>

datatype ETwitterStreamEvent =
    Connected
  | ConnectionError
  | ConnectionClosed
  | ConnectionLost
  | ReconnectAttempt
  | Reconnected
  | ReconnectError
  | ReconnectLimitExceeded
  | DataKeepAlive
  | Data
  | DataError
  | TweetParseError
  | Error
  | OtherEvent string

text \<open>
  Values of type \<^verbatim>\<open>any\<close> that travel through the class: a decoded message, an error object
  raised by a collaborator, and the two \<^verbatim>\<open>Error\<close> objects the class builds itself
  (\<^verbatim>\<open>new Error('Connection closed by Twitter.')\<close> and
  \<^verbatim>\<open>new Error(`Reconnect error - ${n} attempts made yet.`)\<close>).
\<close>

datatype js_any =
    Message string
  | Raised string
  | ConnectionClosedByTwitter
  | ReconnectErrorMessage int

text \<open>The arguments of \<^verbatim>\<open>emit\<close>: none, a number of tries, a value, or \<^verbatim>\<open>{ type, error }\<close>.\<close>

datatype emit_arg =
    NoArg
  | Tries int
  | Val js_any
  | ErrorPayload ETwitterStreamEvent js_any

datatype js_number = Num int | Infinity

text \<open>
  The counts are IEEE doubles. An integer up to \<open>2\<^sup>5\<^sup>3\<close> in absolute value is a double;
  a larger one is rounded to the nearest integer with 53 significant bits, ties to even.
  \<open>js_sub\<close> is the subtraction of two integer-valued doubles.
\<close>

function bit_length :: "int \<Rightarrow> nat" where
  "bit_length n = (if n \<le> 0 then 0 else Suc (bit_length (n div 2)))"
  by auto
termination
  by (relation "measure nat") auto

definition double_of_int :: "int \<Rightarrow> int" where
  "double_of_int n =
     (if \<bar>n\<bar> \<le> 2 ^ 53 then n
      else
        (let m = \<bar>n\<bar>;
             e = bit_length m - 53;
             q = m div 2 ^ e;
             r = m mod 2 ^ e;
             q' = (if 2 * r > 2 ^ e \<or> (2 * r = 2 ^ e \<and> odd q) then q + 1 else q)
         in sgn n * (q' * 2 ^ e)))"

definition js_sub :: "int \<Rightarrow> int \<Rightarrow> int" where
  "js_sub a b = double_of_int (a - b)"

type_synonym handler = nat

datatype transport_event = OnError | OnClose | OnData

datatype effect =
    Emit ETwitterStreamEvent emit_arg
  | Deliver handler ETwitterStreamEvent emit_arg
  | SetKeepAliveTimeout int
  | ClearKeepAliveTimeout
  | SetRetryTimeout int int
  | ClearRetryTimeout
  | ReqOn transport_event
  | ResOn transport_event
  | ResRemoveAllListeners
  | ReqRemoveAllListeners
  | ReqDestroy
  | MakeRequest
  | ParserReset
  | ParserPush string

text \<open>\<^verbatim>\<open>ClientRequest\<close> and \<^verbatim>\<open>IncomingMessage\<close>, as far as the class reads and writes them.\<close>

record request =
  destroyed :: bool
  req_listeners :: "transport_event list"

record response =
  res_listeners :: "transport_event list"

text \<open>
  A pending retry timer: its delay and the \<^verbatim>\<open>retries\<close> its callback
  \<^verbatim>\<open>() => this.onConnectionError(retries - 1)\<close> has captured.
\<close>

record retry_timer =
  timer_delay :: int
  timer_retries :: int

text \<open>
  The timers of the runtime that were set and have neither fired nor been cleared. A field
  of the instance holds the handle it was last given; \<^verbatim>\<open>clearTimeout\<close> of that handle
  removes that timer, and no other.
\<close>

datatype armed_timer = KeepAliveTimer int | RetryTimer retry_timer

record TweetStream =
  autoReconnect :: bool
  autoReconnectRetries :: js_number
  keepAliveTimeoutMs :: js_number
  retryTimeout :: "retry_timer option"
  keepAliveTimeout :: "int option"
  req :: "request option"
  res :: "response option"
  payloadIsError :: "(js_any \<Rightarrow> bool) option"
  listeners :: "(ETwitterStreamEvent \<times> handler) list"
  armed :: "armed_timer list"
  trace :: "effect list"

text \<open>What the awaited connection factory does: it resolves with a handle pair or rejects.\<close>

datatype factory_outcome = Resolved request response | Rejected js_any

datatype thrown = InitWithoutRequest | RequestFailed js_any

text \<open>\<^verbatim>\<open>Partial<IConnectTweetStreamParams>\<close>: every field may be absent.\<close>

datatype retries_option = Retries js_number | Unlimited

datatype keep_alive_option = Timeout js_number | Disable

record connect_options =
  opt_autoReconnect :: "bool option"
  opt_autoReconnectRetries :: "retries_option option"
  opt_keepAliveTimeout :: "keep_alive_option option"

subsection \<open>The inherited event emitter\<close>

text \<open>
  Node's \<^verbatim>\<open>EventEmitter\<close>: \<^verbatim>\<open>on\<close> appends, \<^verbatim>\<open>listeners(name)\<close> returns the handlers of
  one name in registration order, \<^verbatim>\<open>eventNames()\<close> the names that have a handler, each once,
  \<^verbatim>\<open>emit\<close> calls the handlers of the name in registration order.
\<close>

definition on :: "ETwitterStreamEvent \<Rightarrow> handler \<Rightarrow> TweetStream \<Rightarrow> TweetStream" where
  "on event h s = s\<lparr>listeners := listeners s @ [(event, h)]\<rparr>"

definition listeners_of :: "ETwitterStreamEvent \<Rightarrow> TweetStream \<Rightarrow> handler list" where
  "listeners_of event s = map snd (filter (\<lambda>p. fst p = event) (listeners s))"

fun first_occurrences :: "'a list \<Rightarrow> 'a list" where
  "first_occurrences [] = []"
| "first_occurrences (x # xs) = x # filter (\<lambda>y. y \<noteq> x) (first_occurrences xs)"

definition eventNames :: "TweetStream \<Rightarrow> ETwitterStreamEvent list" where
  "eventNames s = first_occurrences (map fst (listeners s))"

definition removeAllListeners :: "TweetStream \<Rightarrow> TweetStream" where
  "removeAllListeners s = s\<lparr>listeners := []\<rparr>"

definition emit :: "ETwitterStreamEvent \<Rightarrow> emit_arg \<Rightarrow> TweetStream \<Rightarrow> TweetStream" where
  "emit event a s =
     s\<lparr>trace := trace s @ Emit event a # map (\<lambda>h. Deliver h event a) (listeners_of event s)\<rparr>"

subsection \<open>Timers\<close>

definition unbindKeepAliveTimeout :: "TweetStream \<Rightarrow> TweetStream" where
  "unbindKeepAliveTimeout s =
     (case keepAliveTimeout s of
        Some t \<Rightarrow> s\<lparr>keepAliveTimeout := None, armed := remove1 (KeepAliveTimer t) (armed s),
                    trace := trace s @ [ClearKeepAliveTimeout]\<rparr>
      | None \<Rightarrow> s)"

definition unbindRetryTimeout :: "TweetStream \<Rightarrow> TweetStream" where
  "unbindRetryTimeout s =
     (case retryTimeout s of
        Some t \<Rightarrow> s\<lparr>retryTimeout := None, armed := remove1 (RetryTimer t) (armed s),
                    trace := trace s @ [ClearRetryTimeout]\<rparr>
      | None \<Rightarrow> s)"

definition unbindTimeouts :: "TweetStream \<Rightarrow> TweetStream" where
  "unbindTimeouts s = unbindKeepAliveTimeout (unbindRetryTimeout s)"

definition resetKeepAliveTimeout :: "TweetStream \<Rightarrow> TweetStream" where
  "resetKeepAliveTimeout s =
     (let s1 = unbindKeepAliveTimeout s in
      case keepAliveTimeoutMs s1 of
        Infinity \<Rightarrow> s1
      | Num ms \<Rightarrow> s1\<lparr>keepAliveTimeout := Some ms, armed := armed s1 @ [KeepAliveTimer ms],
                    trace := trace s1 @ [SetKeepAliveTimeout ms]\<rparr>)"

definition safeReconnectRetries :: "TweetStream \<Rightarrow> int" where
  "safeReconnectRetries s =
     (case autoReconnectRetries s of Infinity \<Rightarrow> 9999999999 | Num n \<Rightarrow> n)"

text \<open>
  \<^verbatim>\<open>makeAutoReconnectRetry\<close> overwrites the field without clearing the timer it held. The
  delay is computed on integers: rounding changes \<^verbatim>\<open>tryOccurence\<close> only from \<open>2\<^sup>5\<^sup>3\<close>
  upward, where the delay is the cap either way.
\<close>

definition makeAutoReconnectRetry :: "int \<Rightarrow> TweetStream \<Rightarrow> TweetStream" where
  "makeAutoReconnectRetry retries s =
     (let tryOccurence = (safeReconnectRetries s - retries) + 1;
          nextRetry = min ((tryOccurence ^ 2) * 1000) 25000
      in s\<lparr>retryTimeout := Some \<lparr>timer_delay = nextRetry, timer_retries = retries\<rparr>,
           armed := armed s @ [RetryTimer \<lparr>timer_delay = nextRetry, timer_retries = retries\<rparr>],
           trace := trace s @ [SetRetryTimeout nextRetry retries]\<rparr>)"

subsection \<open>Closing\<close>

definition closeWithoutEmit :: "TweetStream \<Rightarrow> TweetStream" where
  "closeWithoutEmit s =
     (let s1 = unbindTimeouts s;
          s2 = (case res s1 of
                  Some r \<Rightarrow> s1\<lparr>res := Some (r\<lparr>res_listeners := []\<rparr>),
                               trace := trace s1 @ [ResRemoveAllListeners]\<rparr>
                | None \<Rightarrow> s1)
      in case req s2 of
           Some q \<Rightarrow> s2\<lparr>req := Some (q\<lparr>req_listeners := [], destroyed := True\<rparr>),
                        trace := trace s2 @ [ReqRemoveAllListeners, ReqDestroy]\<rparr>
         | None \<Rightarrow> s2)"

definition close :: "TweetStream \<Rightarrow> TweetStream" where
  "close s = closeWithoutEmit (emit ConnectionClosed NoArg s)"

definition destroy :: "TweetStream \<Rightarrow> TweetStream" where
  "destroy s = close (removeAllListeners s)"

subsection \<open>Connecting\<close>

definition initEventsFromRequest :: "TweetStream \<Rightarrow> thrown option \<times> TweetStream" where
  "initEventsFromRequest s =
     (case (req s, res s) of
        (Some q, Some r) \<Rightarrow>
          (None,
           resetKeepAliveTimeout
             (s\<lparr>req := Some (q\<lparr>req_listeners := req_listeners q @ [OnError]\<rparr>),
                res := Some (r\<lparr>res_listeners := res_listeners r @ [OnError, OnClose, OnData]\<rparr>),
                trace := trace s @ [ReqOn OnError, ResOn OnError, ResOn OnClose, ResOn OnData]\<rparr>))
      | _ \<Rightarrow> (Some InitWithoutRequest, s))"

text \<open>
  \<^verbatim>\<open>reconnect\<close> is \<^verbatim>\<open>async\<close>: it suspends in
  \<^verbatim>\<open>await new RequestHandlerHelper(...).makeRequestAndResolveWhenReady()\<close>.
  \<open>reconnect_request\<close> is the part that runs before the suspension (it returns the local
  \<^verbatim>\<open>initialConnection\<close>), \<open>reconnect_settled\<close> the part that runs once the factory has
  resolved or rejected.
\<close>

definition reconnect_request :: "TweetStream \<Rightarrow> bool \<times> TweetStream" where
  "reconnect_request s =
     (let initialConnection = (req s = None);
          s1 = (case req s of
                  Some q \<Rightarrow> if \<not> destroyed q then closeWithoutEmit s else s
                | None \<Rightarrow> s)
      in (initialConnection, s1\<lparr>trace := trace s1 @ [MakeRequest]\<rparr>))"

definition reconnect_settled ::
  "bool \<Rightarrow> factory_outcome \<Rightarrow> TweetStream \<Rightarrow> thrown option \<times> TweetStream" where
  "reconnect_settled initialConnection outcome s =
     (case outcome of
        Rejected e \<Rightarrow> (Some (RequestFailed e), s)
      | Resolved q r \<Rightarrow>
          (let s1 = s\<lparr>req := Some q, res := Some r\<rparr>;
               s2 = emit (if initialConnection then Connected else Reconnected) NoArg s1;
               s3 = s2\<lparr>trace := trace s2 @ [ParserReset]\<rparr>
           in initEventsFromRequest s3))"

text \<open>The whole method, when nothing else runs while it is suspended.\<close>

definition reconnect :: "factory_outcome \<Rightarrow> TweetStream \<Rightarrow> thrown option \<times> TweetStream" where
  "reconnect outcome s =
     (case reconnect_request s of
        (initialConnection, s1) \<Rightarrow> reconnect_settled initialConnection outcome s1)"

definition connect ::
  "connect_options \<Rightarrow> factory_outcome \<Rightarrow> TweetStream \<Rightarrow> thrown option \<times> TweetStream" where
  "connect options outcome s =
     (let s1 = (case opt_autoReconnect options of
                  Some b \<Rightarrow> s\<lparr>autoReconnect := b\<rparr>
                | None \<Rightarrow> s);
          s2 = (case opt_autoReconnectRetries options of
                  Some Unlimited \<Rightarrow> s1\<lparr>autoReconnectRetries := Infinity\<rparr>
                | Some (Retries n) \<Rightarrow> s1\<lparr>autoReconnectRetries := n\<rparr>
                | None \<Rightarrow> s1);
          s3 = (case opt_keepAliveTimeout options of
                  Some Disable \<Rightarrow> s2\<lparr>keepAliveTimeoutMs := Infinity\<rparr>
                | Some (Timeout ms) \<Rightarrow> s2\<lparr>keepAliveTimeoutMs := ms\<rparr>
                | None \<Rightarrow> s2)
      in reconnect outcome s3)"

text \<open>
  \<^verbatim>\<open>onConnectionError(retries = this.safeReconnectRetries)\<close>: the argument is \<open>None\<close> when
  the caller omits it, and the default is read when the method is entered.

  The method is \<^verbatim>\<open>async\<close> too, and its callers do not await it. \<open>onConnectionError_enter\<close>
  runs it until it returns or suspends in \<^verbatim>\<open>await this.reconnect()\<close>; in the latter case
  the result carries the locals that the rest of the method needs (\<^verbatim>\<open>retries\<close> and the
  \<^verbatim>\<open>initialConnection\<close> of the suspended \<^verbatim>\<open>reconnect\<close>). \<open>onConnectionError_resume\<close> is
  the rest of the method, run when the factory has settled.
\<close>

definition onConnectionError_enter ::
  "int option \<Rightarrow> TweetStream \<Rightarrow> (int \<times> bool) option \<times> TweetStream" where
  "onConnectionError_enter arg s =
     (let retries = (case arg of None \<Rightarrow> safeReconnectRetries s | Some r \<Rightarrow> r);
          s1 = unbindTimeouts s;
          s2 = (case req s1 of
                  Some q \<Rightarrow> if \<not> destroyed q then closeWithoutEmit s1 else s1
                | None \<Rightarrow> s1)
      in if \<not> autoReconnect s2 then (None, emit ConnectionClosed NoArg s2)
         else if retries \<le> 0 then
           (None, emit ConnectionClosed NoArg (emit ReconnectLimitExceeded NoArg s2))
         else
           (let s3 = emit ReconnectAttempt (Tries (js_sub (safeReconnectRetries s2) retries)) s2 in
            case reconnect_request s3 of
              (initialConnection, s4) \<Rightarrow> (Some (retries, initialConnection), s4)))"

definition onConnectionError_resume ::
  "int \<Rightarrow> bool \<Rightarrow> factory_outcome \<Rightarrow> TweetStream \<Rightarrow> TweetStream" where
  "onConnectionError_resume retries initialConnection outcome s =
     (case reconnect_settled initialConnection outcome s of
        (None, s1) \<Rightarrow> s1
      | (Some e, s1) \<Rightarrow>
          (let s2 = emit ReconnectError (Tries (js_sub (safeReconnectRetries s1) retries)) s1;
               s3 = emit Error
                      (ErrorPayload ReconnectError
                         (ReconnectErrorMessage (js_sub (safeReconnectRetries s2) retries))) s2
           in makeAutoReconnectRetry retries s3))"

text \<open>The whole method, when nothing else runs while it is suspended.\<close>

definition onConnectionError ::
  "int option \<Rightarrow> factory_outcome \<Rightarrow> TweetStream \<Rightarrow> TweetStream" where
  "onConnectionError arg outcome s =
     (case onConnectionError_enter arg s of
        (None, s1) \<Rightarrow> s1
      | (Some (retries, initialConnection), s1) \<Rightarrow>
          onConnectionError_resume retries initialConnection outcome s1)"

subsection \<open>Handlers bound to the parser, the transport and the timers\<close>

text \<open>
  The two notifications of the external parser (\<^verbatim>\<open>EStreamParserEvent\<close>) and the handlers
  that \<^verbatim>\<open>initEventsFromParser\<close> registers for them.
\<close>

datatype parser_event = ParsedData js_any | ParseError js_any

definition onParsedData :: "js_any \<Rightarrow> TweetStream \<Rightarrow> TweetStream" where
  "onParsedData eventData s =
     (if (case payloadIsError s of Some isError \<Rightarrow> isError eventData | None \<Rightarrow> False)
      then emit Error (ErrorPayload DataError eventData) (emit DataError (Val eventData) s)
      else emit Data (Val eventData) s)"

definition onParseError :: "js_any \<Rightarrow> TweetStream \<Rightarrow> TweetStream" where
  "onParseError error s =
     emit Error (ErrorPayload TweetParseError error) (emit TweetParseError (Val error) s)"

fun onParserEvent :: "parser_event \<Rightarrow> TweetStream \<Rightarrow> TweetStream" where
  "onParserEvent (ParsedData eventData) s = onParsedData eventData s"
| "onParserEvent (ParseError error) s = onParseError error s"

text \<open>
  The listener of \<^verbatim>\<open>res.on('data', ...)\<close>. The parser is external: \<open>notified\<close> is what
  it emits, synchronously, while \<^verbatim>\<open>push\<close> runs.
\<close>

definition keep_alive_marker :: string where
  "keep_alive_marker = [CHR 0x0D, CHR 0x0A]"

definition onData :: "string \<Rightarrow> parser_event list \<Rightarrow> TweetStream \<Rightarrow> TweetStream" where
  "onData chunk notified s =
     (let s1 = resetKeepAliveTimeout s in
      if chunk = keep_alive_marker then emit DataKeepAlive NoArg s1
      else fold onParserEvent notified (s1\<lparr>trace := trace s1 @ [ParserPush chunk]\<rparr>))"

text \<open>
  The closure \<^verbatim>\<open>errorHandler\<close> of \<^verbatim>\<open>initEventsFromRequest\<close>, bound to \<^verbatim>\<open>'error'\<close> of the
  request and of the response and, with a fixed error, to \<^verbatim>\<open>'close'\<close> of the response; and
  the callback of the keep-alive timer.
\<close>

definition errorHandler :: "js_any \<Rightarrow> factory_outcome \<Rightarrow> TweetStream \<Rightarrow> TweetStream" where
  "errorHandler err outcome s =
     onConnectionError None outcome
       (emit Error (ErrorPayload ConnectionError err) (emit ConnectionError (Val err) s))"

definition onKeepAliveTimeout :: "factory_outcome \<Rightarrow> TweetStream \<Rightarrow> TweetStream" where
  "onKeepAliveTimeout outcome s = onConnectionError None outcome (emit ConnectionLost NoArg s)"

text \<open>
  The three kinds of connection failure and the handler each one reaches:
  \<^verbatim>\<open>'error'\<close> on the request or the response, \<^verbatim>\<open>'close'\<close> on the response, and the
  keep-alive timer.
\<close>

datatype failure_signal = TransportError js_any | TransportClose | WatchdogExpiry

fun connection_failed :: "failure_signal \<Rightarrow> factory_outcome \<Rightarrow> TweetStream \<Rightarrow> TweetStream" where
  "connection_failed (TransportError err) outcome s = errorHandler err outcome s"
| "connection_failed TransportClose outcome s = errorHandler ConnectionClosedByTwitter outcome s"
| "connection_failed WatchdogExpiry outcome s = onKeepAliveTimeout outcome s"

text \<open>
  A timer fires only while it is armed; it is then armed no more and its callback runs. The
  callback of a retry timer is \<^verbatim>\<open>() => this.onConnectionError(retries - 1)\<close>.
\<close>

fun fire :: "armed_timer \<Rightarrow> factory_outcome \<Rightarrow> TweetStream \<Rightarrow> TweetStream" where
  "fire (KeepAliveTimer ms) outcome s =
     (if KeepAliveTimer ms \<in> set (armed s)
      then onKeepAliveTimeout outcome (s\<lparr>armed := remove1 (KeepAliveTimer ms) (armed s)\<rparr>)
      else s)"
| "fire (RetryTimer t) outcome s =
     (if RetryTimer t \<in> set (armed s)
      then onConnectionError (Some (js_sub (timer_retries t) 1)) outcome
             (s\<lparr>armed := remove1 (RetryTimer t) (armed s)\<rparr>)
      else s)"

text \<open>The timer that a field holds fires.\<close>

definition fire_keepAliveTimeout :: "factory_outcome \<Rightarrow> TweetStream \<Rightarrow> TweetStream" where
  "fire_keepAliveTimeout outcome s =
     (case keepAliveTimeout s of None \<Rightarrow> s | Some ms \<Rightarrow> fire (KeepAliveTimer ms) outcome s)"

definition fire_retryTimeout :: "factory_outcome \<Rightarrow> TweetStream \<Rightarrow> TweetStream" where
  "fire_retryTimeout outcome s =
     (case retryTimeout s of None \<Rightarrow> s | Some t \<Rightarrow> fire (RetryTimer t) outcome s)"

text \<open>
  The constructor. \<^verbatim>\<open>initEventsFromParser\<close> binds \<open>onParsedData\<close> and \<open>onParseError\<close> to
  the parser, which the instance keeps for its whole life.
\<close>

definition new_TweetStream ::
  "(js_any \<Rightarrow> bool) option \<Rightarrow> request option \<Rightarrow> response option \<Rightarrow> thrown option \<times> TweetStream"
where
  "new_TweetStream isError rq rs =
     (let s = \<lparr>autoReconnect = False, autoReconnectRetries = Num 5,
                keepAliveTimeoutMs = Num (1000 * 120), retryTimeout = None,
                keepAliveTimeout = None, req = None, res = None, payloadIsError = isError,
                listeners = [], armed = [], trace = []\<rparr>
      in case (rq, rs) of
           (Some q, Some r) \<Rightarrow> initEventsFromRequest (s\<lparr>req := Some q, res := Some r\<rparr>)
         | _ \<Rightarrow> (None, s))"

subsection \<open>Cloning\<close>

text \<open>
  \<^verbatim>\<open>clone\<close> involves two instances, so it is modelled on a store of instances: a list,
  addressed by position. \<open>made\<close> is what the awaited
  \<^verbatim>\<open>new RequestHandlerHelper(this.requestData).makeRequestAsStream()\<close> gives: a rejection, or
  the instance it has constructed, which is then allocated at a new address. The listeners
  of \<^verbatim>\<open>this\<close> are read after the \<^verbatim>\<open>await\<close>, name by name, from the store as it then is.
\<close>

type_synonym heap = "TweetStream list"

definition on_at :: "nat \<Rightarrow> ETwitterStreamEvent \<Rightarrow> handler \<Rightarrow> heap \<Rightarrow> heap" where
  "on_at p event h H = H[p := on event h (H ! p)]"

definition emit_at :: "nat \<Rightarrow> ETwitterStreamEvent \<Rightarrow> emit_arg \<Rightarrow> heap \<Rightarrow> heap" where
  "emit_at p event a H = H[p := emit event a (H ! p)]"

definition clone :: "js_any + TweetStream \<Rightarrow> nat \<Rightarrow> heap \<Rightarrow> (thrown + nat) \<times> heap" where
  "clone made this H =
     (case made of
        Inl e \<Rightarrow> (Inl (RequestFailed e), H)
      | Inr fresh \<Rightarrow>
          (let newStream = length H;
               H1 = H @ [fresh];
               listenerNames = eventNames (H1 ! this)
           in (Inr newStream,
               fold (\<lambda>listener H2.
                       fold (\<lambda>callback H3. on_at newStream listener callback H3)
                         (listeners_of listener (H2 ! this)) H2)
                 listenerNames H1)))"

subsection \<open>Time passing\<close>

text \<open>
  A sequence of timer expiries, each with the outcome of the connection attempt its callback
  may start. Any armed timer can fire, whether a field still holds it or not.
\<close>

definition advance :: "(armed_timer \<times> factory_outcome) list \<Rightarrow> TweetStream \<Rightarrow> TweetStream" where
  "advance fired s = fold (\<lambda>(t, outcome). fire t outcome) fired s"

text \<open>The armed timers that no field holds.\<close>

definition held_timers :: "TweetStream \<Rightarrow> armed_timer list" where
  "held_timers s =
     (case retryTimeout s of Some t \<Rightarrow> [RetryTimer t] | None \<Rightarrow> [])
     @ (case keepAliveTimeout s of Some ms \<Rightarrow> [KeepAliveTimer ms] | None \<Rightarrow> [])"

definition stray_timers :: "TweetStream \<Rightarrow> armed_timer list" where
  "stray_timers s = fold remove1 (held_timers s) (armed s)"

subsection \<open>Reading the trace\<close>

definition emitted :: "TweetStream \<Rightarrow> (ETwitterStreamEvent \<times> emit_arg) list" where
  "emitted s = concat (map (\<lambda>x. case x of Emit event a \<Rightarrow> [(event, a)] | _ \<Rightarrow> []) (trace s))"

definition delivered :: "TweetStream \<Rightarrow> (handler \<times> ETwitterStreamEvent \<times> emit_arg) list" where
  "delivered s =
     concat (map (\<lambda>x. case x of Deliver h event a \<Rightarrow> [(h, event, a)] | _ \<Rightarrow> []) (trace s))"

definition requests_made :: "TweetStream \<Rightarrow> nat" where
  "requests_made s = length (filter (\<lambda>x. x = MakeRequest) (trace s))"

definition attempts_announced :: "TweetStream \<Rightarrow> int list" where
  "attempts_announced s =
     concat (map (\<lambda>x. case x of (ReconnectAttempt, Tries n) \<Rightarrow> [n] | _ \<Rightarrow> []) (emitted s))"


text \<open>The calls made to collaborators other than the subscribers of the instance.\<close>

fun is_notification :: "effect \<Rightarrow> bool" where
  "is_notification (Emit event a) = True"
| "is_notification (Deliver h event a) = True"
| "is_notification _ = False"

definition actions :: "TweetStream \<Rightarrow> effect list" where
  "actions s = filter (\<lambda>x. \<not> is_notification x) (trace s)"

text \<open>
  The test \<^verbatim>\<open>payloadIsError && payloadIsError(eventData)\<close> of the parsed-data handler.
\<close>

definition classified_as_error :: "TweetStream \<Rightarrow> js_any \<Rightarrow> bool" where
  "classified_as_error s eventData =
     (case payloadIsError s of Some isError \<Rightarrow> isError eventData | None \<Rightarrow> False)"

text \<open>
  The guard \<^verbatim>\<open>if (this.req && !this.req.destroyed) this.closeWithoutEmit()\<close>, which
  \<^verbatim>\<open>reconnect\<close> and \<^verbatim>\<open>onConnectionError\<close> both contain.
\<close>

definition teardown_if_open :: "TweetStream \<Rightarrow> TweetStream" where
  "teardown_if_open s =
     (case req s of
        Some q \<Rightarrow> if \<not> destroyed q then closeWithoutEmit s else s
      | None \<Rightarrow> s)"

text \<open>The guard of that teardown: a request exists and is not destroyed.\<close>

definition still_open :: "TweetStream \<Rightarrow> bool" where
  "still_open s = (case req s of Some q \<Rightarrow> \<not> destroyed q | None \<Rightarrow> False)"

text \<open>What a connection-failed signal emits before \<^verbatim>\<open>onConnectionError\<close> is entered.\<close>

fun announce :: "failure_signal \<Rightarrow> TweetStream \<Rightarrow> TweetStream" where
  "announce (TransportError err) s =
     emit Error (ErrorPayload ConnectionError err) (emit ConnectionError (Val err) s)"
| "announce TransportClose s =
     emit Error (ErrorPayload ConnectionError ConnectionClosedByTwitter)
       (emit ConnectionError (Val ConnectionClosedByTwitter) s)"
| "announce WatchdogExpiry s = emit ConnectionLost NoArg s"

definition announced :: "failure_signal \<Rightarrow> (ETwitterStreamEvent \<times> emit_arg) list" where
  "announced signal =
     (case signal of
        TransportError err \<Rightarrow>
          [(ConnectionError, Val err), (Error, ErrorPayload ConnectionError err)]
      | TransportClose \<Rightarrow>
          [(ConnectionError, Val ConnectionClosedByTwitter),
           (Error, ErrorPayload ConnectionError ConnectionClosedByTwitter)]
      | WatchdogExpiry \<Rightarrow> [(ConnectionLost, NoArg)])"

text \<open>The three events of a reconnect attempt that fails, with its index.\<close>

definition attempt_events :: "int \<Rightarrow> (ETwitterStreamEvent \<times> emit_arg) list" where
  "attempt_events k =
     [(ReconnectAttempt, Tries k), (ReconnectError, Tries k),
      (Error, ErrorPayload ReconnectError (ReconnectErrorMessage k))]"

subsection \<open>Sample instances\<close>

definition fresh_request :: request where
  "fresh_request = \<lparr>destroyed = False, req_listeners = []\<rparr>"

definition fresh_response :: response where
  "fresh_response = \<lparr>res_listeners = []\<rparr>"

text \<open>An instance built on an open connection, with the defaults of the class.\<close>

definition sample_stream :: TweetStream where
  "sample_stream = snd (new_TweetStream None (Some fresh_request) (Some fresh_response))"

text \<open>An instance connected with \<^verbatim>\<open>{ autoReconnect: true, autoReconnectRetries: N }\<close>.\<close>

definition connected_stream :: "int \<Rightarrow> TweetStream" where
  "connected_stream N =
     snd (connect \<lparr>opt_autoReconnect = Some True, opt_autoReconnectRetries = Some (Retries (Num N)),
                   opt_keepAliveTimeout = None\<rparr>
            (Resolved fresh_request fresh_response) (snd (new_TweetStream None None None)))"

text \<open>
  The same instance after its connection has closed, suspended in
  \<^verbatim>\<open>await this.reconnect()\<close> of the failure handler.
\<close>

definition suspended_stream :: TweetStream where
  "suspended_stream =
     snd (onConnectionError_enter None (announce TransportClose (connected_stream 3)))"

text \<open>
  Two failure handlers that overlapped. While the first was suspended the caller reconnected,
  the new connection closed and its attempt was refused; then the first attempt was refused
  as well. Each of the two has set a retry timer, the second over the first.
\<close>

definition overlapped_stream :: TweetStream where
  "overlapped_stream =
     onConnectionError_resume 3 False (Rejected (Raised ''refused''))
       (connection_failed TransportClose (Rejected (Raised ''refused''))
          (snd (reconnect (Resolved fresh_request fresh_response) suspended_stream)))"

text \<open>An instance with three subscriptions.\<close>

definition subscribed_stream :: TweetStream where
  "subscribed_stream = on Data 1 (on Error 2 (on Data 3 sample_stream))"

section \<open>Properties\<close>

subsection \<open>What each primitive changes\<close>

lemma emitted_emit [simp]: "emitted (emit event a s) = emitted s @ [(event, a)]"
  by (simp add: emitted_def emit_def comp_def)

lemma delivered_emit [simp]:
  "delivered (emit event a s) = delivered s @ map (\<lambda>h. (h, event, a)) (listeners_of event s)"
  by (simp add: delivered_def emit_def comp_def)

lemma requests_made_emit [simp]: "requests_made (emit event a s) = requests_made s"
  by (simp add: requests_made_def emit_def)

lemma actions_emit [simp]: "actions (emit event a s) = actions s"
  by (simp add: actions_def emit_def)

lemma emit_fields [simp]:
  "autoReconnect (emit event a s) = autoReconnect s"
  "autoReconnectRetries (emit event a s) = autoReconnectRetries s"
  "keepAliveTimeoutMs (emit event a s) = keepAliveTimeoutMs s"
  "retryTimeout (emit event a s) = retryTimeout s"
  "keepAliveTimeout (emit event a s) = keepAliveTimeout s"
  "req (emit event a s) = req s"
  "res (emit event a s) = res s"
  "payloadIsError (emit event a s) = payloadIsError s"
  "listeners (emit event a s) = listeners s"
  by (simp_all add: emit_def)

lemma safeReconnectRetries_emit [simp]:
  "safeReconnectRetries (emit event a s) = safeReconnectRetries s"
  by (simp add: safeReconnectRetries_def)

lemma unbindTimeouts_fields [simp]:
  "autoReconnect (unbindTimeouts s) = autoReconnect s"
  "autoReconnectRetries (unbindTimeouts s) = autoReconnectRetries s"
  "keepAliveTimeoutMs (unbindTimeouts s) = keepAliveTimeoutMs s"
  "retryTimeout (unbindTimeouts s) = None"
  "keepAliveTimeout (unbindTimeouts s) = None"
  "req (unbindTimeouts s) = req s"
  "res (unbindTimeouts s) = res s"
  "payloadIsError (unbindTimeouts s) = payloadIsError s"
  "listeners (unbindTimeouts s) = listeners s"
  "emitted (unbindTimeouts s) = emitted s"
  "delivered (unbindTimeouts s) = delivered s"
  "requests_made (unbindTimeouts s) = requests_made s"
  by (simp_all add: unbindTimeouts_def unbindKeepAliveTimeout_def unbindRetryTimeout_def
        emitted_def delivered_def requests_made_def split: option.splits)

lemma closeWithoutEmit_fields [simp]:
  "autoReconnect (closeWithoutEmit s) = autoReconnect s"
  "autoReconnectRetries (closeWithoutEmit s) = autoReconnectRetries s"
  "keepAliveTimeoutMs (closeWithoutEmit s) = keepAliveTimeoutMs s"
  "retryTimeout (closeWithoutEmit s) = None"
  "keepAliveTimeout (closeWithoutEmit s) = None"
  "req (closeWithoutEmit s)
     = map_option (\<lambda>q. q\<lparr>req_listeners := [], destroyed := True\<rparr>) (req s)"
  "res (closeWithoutEmit s) = map_option (\<lambda>r. r\<lparr>res_listeners := []\<rparr>) (res s)"
  "payloadIsError (closeWithoutEmit s) = payloadIsError s"
  "listeners (closeWithoutEmit s) = listeners s"
  by (simp_all add: closeWithoutEmit_def Let_def split: option.splits)

lemma closeWithoutEmit_trace:
  "trace (closeWithoutEmit s)
     = trace s
       @ (case retryTimeout s of Some t \<Rightarrow> [ClearRetryTimeout] | None \<Rightarrow> [])
       @ (case keepAliveTimeout s of Some t \<Rightarrow> [ClearKeepAliveTimeout] | None \<Rightarrow> [])
       @ (case res s of Some r \<Rightarrow> [ResRemoveAllListeners] | None \<Rightarrow> [])
       @ (case req s of Some q \<Rightarrow> [ReqRemoveAllListeners, ReqDestroy] | None \<Rightarrow> [])"
  by (simp add: closeWithoutEmit_def Let_def unbindTimeouts_def unbindKeepAliveTimeout_def
        unbindRetryTimeout_def split: option.splits)

lemma closeWithoutEmit_silent [simp]:
  "emitted (closeWithoutEmit s) = emitted s"
  "delivered (closeWithoutEmit s) = delivered s"
  "requests_made (closeWithoutEmit s) = requests_made s"
  by (cases "retryTimeout s"; cases "keepAliveTimeout s"; cases "res s"; cases "req s";
      simp add: closeWithoutEmit_trace emitted_def delivered_def requests_made_def)+

lemma safeReconnectRetries_closeWithoutEmit [simp]:
  "safeReconnectRetries (closeWithoutEmit s) = safeReconnectRetries s"
  "safeReconnectRetries (unbindTimeouts s) = safeReconnectRetries s"
  by (simp_all add: safeReconnectRetries_def)

lemma teardown_if_open_fields [simp]:
  "autoReconnect (teardown_if_open s) = autoReconnect s"
  "autoReconnectRetries (teardown_if_open s) = autoReconnectRetries s"
  "keepAliveTimeoutMs (teardown_if_open s) = keepAliveTimeoutMs s"
  "payloadIsError (teardown_if_open s) = payloadIsError s"
  "listeners (teardown_if_open s) = listeners s"
  "emitted (teardown_if_open s) = emitted s"
  "delivered (teardown_if_open s) = delivered s"
  "requests_made (teardown_if_open s) = requests_made s"
  "safeReconnectRetries (teardown_if_open s) = safeReconnectRetries s"
  by (simp_all add: teardown_if_open_def split: option.splits)

lemma teardown_if_open_timers:
  "retryTimeout s = None \<Longrightarrow> retryTimeout (teardown_if_open s) = None"
  "keepAliveTimeout s = None \<Longrightarrow> keepAliveTimeout (teardown_if_open s) = None"
  by (simp_all add: teardown_if_open_def split: option.splits)

lemma req_teardown_if_open_None [simp]:
  "(req (teardown_if_open s) = None) = (req s = None)"
  by (simp add: teardown_if_open_def split: option.splits)

lemma resetKeepAliveTimeout_fields [simp]:
  "autoReconnect (resetKeepAliveTimeout s) = autoReconnect s"
  "autoReconnectRetries (resetKeepAliveTimeout s) = autoReconnectRetries s"
  "keepAliveTimeoutMs (resetKeepAliveTimeout s) = keepAliveTimeoutMs s"
  "retryTimeout (resetKeepAliveTimeout s) = retryTimeout s"
  "keepAliveTimeout (resetKeepAliveTimeout s)
     = (case keepAliveTimeoutMs s of Num ms \<Rightarrow> Some ms | Infinity \<Rightarrow> None)"
  "req (resetKeepAliveTimeout s) = req s"
  "res (resetKeepAliveTimeout s) = res s"
  "payloadIsError (resetKeepAliveTimeout s) = payloadIsError s"
  "listeners (resetKeepAliveTimeout s) = listeners s"
  "trace (resetKeepAliveTimeout s)
     = trace s
       @ (case keepAliveTimeout s of Some t \<Rightarrow> [ClearKeepAliveTimeout] | None \<Rightarrow> [])
       @ (case keepAliveTimeoutMs s of Num ms \<Rightarrow> [SetKeepAliveTimeout ms] | Infinity \<Rightarrow> [])"
  by (simp_all add: resetKeepAliveTimeout_def unbindKeepAliveTimeout_def Let_def
        split: option.splits js_number.splits)

lemma resetKeepAliveTimeout_quiet [simp]:
  "emitted (resetKeepAliveTimeout s) = emitted s"
  "delivered (resetKeepAliveTimeout s) = delivered s"
  "requests_made (resetKeepAliveTimeout s) = requests_made s"
  "safeReconnectRetries (resetKeepAliveTimeout s) = safeReconnectRetries s"
  by (cases "keepAliveTimeoutMs s"; cases "keepAliveTimeout s";
      simp add: emitted_def delivered_def requests_made_def safeReconnectRetries_def)+

lemma makeAutoReconnectRetry_fields [simp]:
  "emitted (makeAutoReconnectRetry r s) = emitted s"
  "autoReconnect (makeAutoReconnectRetry r s) = autoReconnect s"
  "autoReconnectRetries (makeAutoReconnectRetry r s) = autoReconnectRetries s"
  "keepAliveTimeoutMs (makeAutoReconnectRetry r s) = keepAliveTimeoutMs s"
  "keepAliveTimeout (makeAutoReconnectRetry r s) = keepAliveTimeout s"
  "requests_made (makeAutoReconnectRetry r s) = requests_made s"
  "retryTimeout (makeAutoReconnectRetry r s)
     = Some \<lparr>timer_delay = min ((safeReconnectRetries s - r + 1) ^ 2 * 1000) 25000,
             timer_retries = r\<rparr>"
  by (simp_all add: makeAutoReconnectRetry_def Let_def emitted_def requests_made_def)

lemma safeReconnectRetries_makeAutoReconnectRetry [simp]:
  "safeReconnectRetries (makeAutoReconnectRetry r s) = safeReconnectRetries s"
  by (simp add: safeReconnectRetries_def)

lemma double_of_int_exact: "\<bar>n\<bar> \<le> 2 ^ 53 \<Longrightarrow> double_of_int n = n"
  by (simp add: double_of_int_def)

lemma js_sub_exact: "\<bar>a - b\<bar> \<le> 2 ^ 53 \<Longrightarrow> js_sub a b = a - b"
  by (simp add: js_sub_def double_of_int_exact)

text \<open>
  Beyond \<open>2\<^sup>5\<^sup>3\<close> the count skips: with a budget of \<open>2\<^sup>5\<^sup>3 + 2\<close> the retry timer of the
  first attempt continues with \<open>2\<^sup>5\<^sup>3\<close> retries, and the second attempt has index 2.
\<close>

lemma rounding_beyond_safe_range:
  "js_sub (2 ^ 53 + 2) 1 = 2 ^ 53 \<and> js_sub (2 ^ 53 + 2) (js_sub (2 ^ 53 + 2) 1) = 2"
  by code_simp

lemma js_sub_self [simp]: "js_sub a a = 0"
  by (simp add: js_sub_def double_of_int_def)

lemma armed_emit [simp]: "armed (emit event a s) = armed s"
  by (simp add: emit_def)

lemma armed_unbindTimeouts [simp]: "armed (unbindTimeouts s) = stray_timers s"
  by (simp add: unbindTimeouts_def unbindKeepAliveTimeout_def unbindRetryTimeout_def
        stray_timers_def held_timers_def split: option.splits)

lemma armed_closeWithoutEmit [simp]: "armed (closeWithoutEmit s) = stray_timers s"
  by (simp add: closeWithoutEmit_def Let_def split: option.splits)

lemma stray_timers_idle:
  "retryTimeout s = None \<Longrightarrow> keepAliveTimeout s = None \<Longrightarrow> stray_timers s = armed s"
  by (simp add: stray_timers_def held_timers_def)

lemma armed_teardown_unbound [simp]:
  "armed (teardown_if_open (unbindTimeouts s)) = stray_timers s"
  by (simp add: teardown_if_open_def stray_timers_idle split: option.splits)

lemma armed_makeAutoReconnectRetry [simp]:
  "armed (makeAutoReconnectRetry r s)
     = armed s @ [RetryTimer \<lparr>timer_delay = min ((safeReconnectRetries s - r + 1) ^ 2 * 1000) 25000,
                              timer_retries = r\<rparr>]"
  by (simp add: makeAutoReconnectRetry_def Let_def)

subsection \<open>What a connection attempt changes\<close>

lemma reconnect_Rejected_eq:
  "reconnect (Rejected e) s
     = (Some (RequestFailed e),
        (teardown_if_open s)\<lparr>trace := trace (teardown_if_open s) @ [MakeRequest]\<rparr>)"
  by (simp add: reconnect_def reconnect_request_def reconnect_settled_def teardown_if_open_def Let_def)

lemma emitted_trace_append:
  "emitted (s\<lparr>trace := trace s @ xs\<rparr>) = emitted s @ emitted (s\<lparr>trace := xs\<rparr>)"
  by (simp add: emitted_def)

lemma reconnect_Rejected [simp]:
  "fst (reconnect (Rejected e) s) = Some (RequestFailed e)"
  "emitted (snd (reconnect (Rejected e) s)) = emitted s"
  "autoReconnect (snd (reconnect (Rejected e) s)) = autoReconnect s"
  "autoReconnectRetries (snd (reconnect (Rejected e) s)) = autoReconnectRetries s"
  "keepAliveTimeoutMs (snd (reconnect (Rejected e) s)) = keepAliveTimeoutMs s"
  "requests_made (snd (reconnect (Rejected e) s)) = Suc (requests_made s)"
  "safeReconnectRetries (snd (reconnect (Rejected e) s)) = safeReconnectRetries s"
  "retryTimeout (snd (reconnect (Rejected e) s)) = retryTimeout (teardown_if_open s)"
  "keepAliveTimeout (snd (reconnect (Rejected e) s)) = keepAliveTimeout (teardown_if_open s)"
proof -
  show "emitted (snd (reconnect (Rejected e) s)) = emitted s"
    by (simp add: reconnect_Rejected_eq emitted_trace_append) (simp add: emitted_def)
  show "requests_made (snd (reconnect (Rejected e) s)) = Suc (requests_made s)"
    unfolding reconnect_Rejected_eq
    using requests_made_def teardown_if_open_fields(8)[of s] by simp
qed (simp_all add: reconnect_Rejected_eq safeReconnectRetries_def)

lemma reconnect_Resolved_trace:
  "trace (snd (reconnect (Resolved q r) s))
     = trace (teardown_if_open s)
       @ [MakeRequest]
       @ Emit (if req s = None then Connected else Reconnected) NoArg
         # map (\<lambda>h. Deliver h (if req s = None then Connected else Reconnected) NoArg)
             (listeners_of (if req s = None then Connected else Reconnected) s)
       @ [ParserReset]
       @ [ReqOn OnError, ResOn OnError, ResOn OnClose, ResOn OnData]
       @ (case keepAliveTimeout (teardown_if_open s) of
            Some t \<Rightarrow> [ClearKeepAliveTimeout] | None \<Rightarrow> [])
       @ (case keepAliveTimeoutMs s of Num ms \<Rightarrow> [SetKeepAliveTimeout ms] | Infinity \<Rightarrow> [])"
  by (simp add: reconnect_def reconnect_request_def reconnect_settled_def Let_def
        initEventsFromRequest_def teardown_if_open_def[symmetric] emit_def listeners_of_def)

lemma reconnect_Resolved [simp]:
  "fst (reconnect (Resolved q r) s) = None"
  "autoReconnect (snd (reconnect (Resolved q r) s)) = autoReconnect s"
  "autoReconnectRetries (snd (reconnect (Resolved q r) s)) = autoReconnectRetries s"
  "keepAliveTimeoutMs (snd (reconnect (Resolved q r) s)) = keepAliveTimeoutMs s"
  "retryTimeout (snd (reconnect (Resolved q r) s)) = retryTimeout (teardown_if_open s)"
  "keepAliveTimeout (snd (reconnect (Resolved q r) s))
     = (case keepAliveTimeoutMs s of Num ms \<Rightarrow> Some ms | Infinity \<Rightarrow> None)"
  "req (snd (reconnect (Resolved q r) s))
     = Some (q\<lparr>req_listeners := req_listeners q @ [OnError]\<rparr>)"
  "res (snd (reconnect (Resolved q r) s))
     = Some (r\<lparr>res_listeners := res_listeners r @ [OnError, OnClose, OnData]\<rparr>)"
  "payloadIsError (snd (reconnect (Resolved q r) s)) = payloadIsError s"
  "listeners (snd (reconnect (Resolved q r) s)) = listeners s"
  by (simp_all add: reconnect_def reconnect_request_def reconnect_settled_def Let_def
        initEventsFromRequest_def teardown_if_open_def[symmetric] emit_def)

lemma reconnect_Resolved_emitted [simp]:
  "emitted (snd (reconnect (Resolved q r) s))
     = emitted s @ [(if req s = None then Connected else Reconnected, NoArg)]"
proof -
  have "emitted (teardown_if_open s) = emitted s" by simp
  then show ?thesis
    unfolding emitted_def reconnect_Resolved_trace
    by (cases "keepAliveTimeoutMs s"; cases "keepAliveTimeout (teardown_if_open s)")
       (simp_all add: comp_def)
qed

subsection \<open>What the failure handler does\<close>

lemma onConnectionError_unfold:
  "onConnectionError arg outcome s =
     (let retries = (case arg of None \<Rightarrow> safeReconnectRetries s | Some r \<Rightarrow> r);
          s2 = teardown_if_open (unbindTimeouts s)
      in if \<not> autoReconnect s2 then emit ConnectionClosed NoArg s2
         else if retries \<le> 0 then
           emit ConnectionClosed NoArg (emit ReconnectLimitExceeded NoArg s2)
         else
           (let s3 = emit ReconnectAttempt (Tries (js_sub (safeReconnectRetries s2) retries)) s2 in
            case reconnect outcome s3 of
              (None, s4) \<Rightarrow> s4
            | (Some e, s4) \<Rightarrow>
                (let s5 = emit ReconnectError (Tries (js_sub (safeReconnectRetries s4) retries)) s4;
                     s6 = emit Error
                            (ErrorPayload ReconnectError
                               (ReconnectErrorMessage (js_sub (safeReconnectRetries s5) retries))) s5
                 in makeAutoReconnectRetry retries s6)))"
proof -
  obtain initialConnection s4 where request:
    "reconnect_request
       (emit ReconnectAttempt
          (Tries (js_sub (safeReconnectRetries s)
                    (case arg of None \<Rightarrow> safeReconnectRetries s | Some r \<Rightarrow> r)))
          (teardown_if_open (unbindTimeouts s))) = (initialConnection, s4)"
    by (cases "reconnect_request
       (emit ReconnectAttempt
          (Tries (js_sub (safeReconnectRetries s)
                    (case arg of None \<Rightarrow> safeReconnectRetries s | Some r \<Rightarrow> r)))
          (teardown_if_open (unbindTimeouts s)))")
  show ?thesis
    by (simp add: onConnectionError_def onConnectionError_enter_def onConnectionError_resume_def
          reconnect_def Let_def teardown_if_open_def[symmetric] request)
qed

lemma onConnectionError_default:
  "onConnectionError None outcome s = onConnectionError (Some (safeReconnectRetries s)) outcome s"
  by (simp add: onConnectionError_unfold)


lemma onConnectionError_exhausted:
  assumes "autoReconnect s" and "r \<le> 0"
  shows "emitted (onConnectionError (Some r) outcome s)
           = emitted s @ [(ReconnectLimitExceeded, NoArg), (ConnectionClosed, NoArg)]"
    and "retryTimeout (onConnectionError (Some r) outcome s) = None"
    and "keepAliveTimeout (onConnectionError (Some r) outcome s) = None"
    and "requests_made (onConnectionError (Some r) outcome s) = requests_made s"
  using assms by (simp_all add: onConnectionError_unfold Let_def teardown_if_open_timers)

lemma onConnectionError_failed_attempt:
  assumes "autoReconnect s" and "0 < r"
  shows "emitted (onConnectionError (Some r) (Rejected e) s)
           = emitted s @ attempt_events (js_sub (safeReconnectRetries s) r)"
    and "retryTimeout (onConnectionError (Some r) (Rejected e) s)
           = Some \<lparr>timer_delay = min ((safeReconnectRetries s - r + 1) ^ 2 * 1000) 25000,
                   timer_retries = r\<rparr>"
    and "keepAliveTimeout (onConnectionError (Some r) (Rejected e) s) = None"
    and "requests_made (onConnectionError (Some r) (Rejected e) s) = Suc (requests_made s)"
    and "autoReconnect (onConnectionError (Some r) (Rejected e) s)"
    and "autoReconnectRetries (onConnectionError (Some r) (Rejected e) s) = autoReconnectRetries s"
  using assms
  by (simp_all add: onConnectionError_unfold Let_def attempt_events_def split_beta
        teardown_if_open_timers)

lemma onConnectionError_successful_attempt:
  assumes "autoReconnect s" and "0 < r"
  shows "emitted (onConnectionError (Some r) (Resolved q p) s)
           = emitted s @ [(ReconnectAttempt, Tries (js_sub (safeReconnectRetries s) r)),
                          (if req s = None then Connected else Reconnected, NoArg)]"
    and "retryTimeout (onConnectionError (Some r) (Resolved q p) s) = None"
    and "keepAliveTimeout (onConnectionError (Some r) (Resolved q p) s)
           = (case keepAliveTimeoutMs s of Num ms \<Rightarrow> Some ms | Infinity \<Rightarrow> None)"
    and "autoReconnect (onConnectionError (Some r) (Resolved q p) s)"
    and "autoReconnectRetries (onConnectionError (Some r) (Resolved q p) s) = autoReconnectRetries s"
  using assms
  by (simp_all add: onConnectionError_unfold Let_def split_beta teardown_if_open_timers)

lemma connection_failed_eq:
  "connection_failed signal outcome s = onConnectionError None outcome (announce signal s)"
  by (cases signal) (simp_all add: errorHandler_def onKeepAliveTimeout_def)

lemma announce_fields [simp]:
  "emitted (announce signal s) = emitted s @ announced signal"
  "autoReconnect (announce signal s) = autoReconnect s"
  "autoReconnectRetries (announce signal s) = autoReconnectRetries s"
  "keepAliveTimeoutMs (announce signal s) = keepAliveTimeoutMs s"
  "safeReconnectRetries (announce signal s) = safeReconnectRetries s"
  "requests_made (announce signal s) = requests_made s"
  "req (announce signal s) = req s"
  by (cases signal; simp add: announced_def)+

lemma fire_retryTimeout_idle: "retryTimeout s = None \<Longrightarrow> fire_retryTimeout outcome s = s"
  by (simp add: fire_retryTimeout_def)

lemma fire_keepAliveTimeout_idle:
  "keepAliveTimeout s = None \<Longrightarrow> fire_keepAliveTimeout outcome s = s"
  by (simp add: fire_keepAliveTimeout_def)

lemma attempts_announced_append:
  "emitted s' = emitted s @ xs \<Longrightarrow>
   attempts_announced s'
     = attempts_announced s
       @ concat (map (\<lambda>x. case x of (ReconnectAttempt, Tries n) \<Rightarrow> [n] | _ \<Rightarrow> []) xs)"
  by (simp add: attempts_announced_def)

subsection \<open>Backoff\<close>



subsection \<open>Failure without automatic reconnection\<close>



subsection \<open>Exhausting the retry budget\<close>

lemma armed_teardown_idle:
  "retryTimeout s = None \<Longrightarrow> keepAliveTimeout s = None \<Longrightarrow> armed (teardown_if_open s) = armed s"
  by (simp add: teardown_if_open_def stray_timers_idle split: option.splits)

lemma armed_reconnect_Rejected [simp]:
  "armed (snd (reconnect (Rejected e) s)) = armed (teardown_if_open s)"
  by (simp add: reconnect_Rejected_eq)

lemma onConnectionError_stopped_armed:
  assumes "\<not> autoReconnect s \<or> r \<le> 0"
  shows "armed (onConnectionError (Some r) outcome s) = stray_timers s"
  using assms by (auto simp add: onConnectionError_unfold Let_def)

lemma onConnectionError_failed_attempt_armed:
  assumes "autoReconnect s" and "0 < r"
  shows "armed (onConnectionError (Some r) (Rejected e) s)
           = stray_timers s
             @ [RetryTimer \<lparr>timer_delay = min ((safeReconnectRetries s - r + 1) ^ 2 * 1000) 25000,
                              timer_retries = r\<rparr>]"
  using assms
  by (simp add: onConnectionError_unfold Let_def split_beta armed_teardown_idle teardown_if_open_timers)

lemma fire_sole_retry_timer:
  assumes "armed s = [RetryTimer t]" and "retryTimeout s = Some t"
  shows "fire_retryTimeout outcome s
           = onConnectionError (Some (js_sub (timer_retries t) 1)) outcome (s\<lparr>armed := []\<rparr>)"
  using assms by (simp add: fire_retryTimeout_def)

lemma fire_nothing_armed: "armed s = [] \<Longrightarrow> fire t outcome s = s"
  by (cases t) simp_all

lemma advance_nothing_armed: "armed s = [] \<Longrightarrow> advance fired s = s"
  unfolding advance_def by (induction fired) (simp_all add: fire_nothing_armed split_beta)

lemma fold_remove1_Nil [simp]: "fold remove1 xs [] = []"
  by (induction xs) simp_all

lemma attempts_shift:
  "concat (map (\<lambda>k. attempt_events (b - 1 + int k)) [0..<Suc n])
     = attempt_events (b - 1) @ concat (map (\<lambda>k. attempt_events (b + int k)) [0..<n])"
proof -
  have "[0..<Suc n] = 0 # map Suc [0..<n]"
    by (simp add: upt_conv_Cons map_Suc_upt del: upt_Suc)
  then show ?thesis
    by (simp add: comp_def del: upt_Suc)
qed

lemma retry_chain:
  assumes "autoReconnect s" and "stray_timers s = []"
    and "int n \<le> safeReconnectRetries s" and "safeReconnectRetries s \<le> 2 ^ 53"
  shows "emitted ((fire_retryTimeout (Rejected e) ^^ n)
                    (onConnectionError (Some (int n)) (Rejected e) s))
           = emitted s
             @ concat (map (\<lambda>k. attempt_events (safeReconnectRetries s - int n + int k)) [0..<n])
             @ [(ReconnectLimitExceeded, NoArg), (ConnectionClosed, NoArg)]
       \<and> retryTimeout ((fire_retryTimeout (Rejected e) ^^ n)
                         (onConnectionError (Some (int n)) (Rejected e) s)) = None
       \<and> keepAliveTimeout ((fire_retryTimeout (Rejected e) ^^ n)
                         (onConnectionError (Some (int n)) (Rejected e) s)) = None
       \<and> armed ((fire_retryTimeout (Rejected e) ^^ n)
                         (onConnectionError (Some (int n)) (Rejected e) s)) = []
       \<and> requests_made ((fire_retryTimeout (Rejected e) ^^ n)
                         (onConnectionError (Some (int n)) (Rejected e) s))
           = requests_made s + n"
  using assms
proof (induction n arbitrary: s)
  case 0
  then show ?case
    by (simp add: onConnectionError_exhausted onConnectionError_stopped_armed)
next
  case (Suc n)
  let ?x = "onConnectionError (Some (int (Suc n))) (Rejected e) s"
  let ?y = "?x\<lparr>armed := []\<rparr>"
  have pos: "0 < int (Suc n)" by simp
  note first = onConnectionError_failed_attempt [OF Suc.prems(1) pos, of e]
  note first_armed = onConnectionError_failed_attempt_armed [OF Suc.prems(1) pos, of e]
  have index: "js_sub (safeReconnectRetries s) (int (Suc n)) = safeReconnectRetries s - int (Suc n)"
    using Suc.prems(3,4) by (intro js_sub_exact) simp
  have next_retries: "js_sub (int (Suc n)) 1 = int n"
    using Suc.prems(3,4) by (simp add: js_sub_exact)
  have fire: "fire_retryTimeout (Rejected e) ?x = onConnectionError (Some (int n)) (Rejected e) ?y"
    using fire_sole_retry_timer [of ?x _ "Rejected e"] first(2) first_armed Suc.prems(2)
    by (simp add: next_retries del: of_nat_Suc)
  have unfold: "(fire_retryTimeout (Rejected e) ^^ Suc n) ?x
                  = (fire_retryTimeout (Rejected e) ^^ n)
                      (onConnectionError (Some (int n)) (Rejected e) ?y)"
    by (simp add: funpow_swap1 fire del: of_nat_Suc)
  have y: "autoReconnect ?y" "stray_timers ?y = []" "safeReconnectRetries ?y = safeReconnectRetries s"
    "emitted ?y = emitted ?x" "requests_made ?y = requests_made ?x"
    using first(5,6)
    by (simp_all add: stray_timers_def safeReconnectRetries_def emitted_def requests_made_def)
  have bounds: "int n \<le> safeReconnectRetries ?y" "safeReconnectRetries ?y \<le> 2 ^ 53"
    using Suc.prems(3,4) y(3) by simp_all
  have shift:
    "concat (map (\<lambda>k. attempt_events (safeReconnectRetries s - int (Suc n) + int k)) [0..<Suc n])
       = attempt_events (safeReconnectRetries s - int (Suc n))
         @ concat (map (\<lambda>k. attempt_events (safeReconnectRetries s - int n + int k)) [0..<n])"
    using attempts_shift [of "safeReconnectRetries s - int n" n]
    by (simp add: algebra_simps del: upt_Suc)
  from Suc.IH [OF y(1,2) bounds] show ?case
    unfolding unfold shift
    by (simp add: y first(1) first(4) index del: upt_Suc of_nat_Suc)
qed


lemma announce_timers [simp]:
  "armed (announce signal s) = armed s"
  "retryTimeout (announce signal s) = retryTimeout s"
  "keepAliveTimeout (announce signal s) = keepAliveTimeout s"
  "stray_timers (announce signal s) = stray_timers s"
  by (cases signal; simp add: stray_timers_def held_timers_def)+

text \<open>
  C2. With \<^verbatim>\<open>autoReconnect = true\<close> and a budget of \<open>N\<close> retries (an integer that a
  double holds exactly), on an instance whose armed timers are the ones its fields hold, a
  connection failure followed by \<open>N\<close> failed reconnect attempts (the first started by
  the failure itself, each later one by the retry timer) emits, after the \<open>N\<close> attempts with
  indices \<open>0, \<dots>, N - 1\<close>, \<^verbatim>\<open>ReconnectLimitExceeded\<close> and then \<^verbatim>\<open>ConnectionClosed\<close>,
  each once. The factory has been called \<open>N\<close> times, no timer is armed, and further time
  passing changes nothing.
\<close>

theorem retry_limit_exceeded:
  assumes "autoReconnect s" and "autoReconnectRetries s = Num (int N)"
    and "int N \<le> 2 ^ 53" and "stray_timers s = []"
  shows "emitted ((fire_retryTimeout (Rejected e) ^^ N) (connection_failed signal (Rejected e) s))
           = emitted s
             @ announced signal
             @ concat (map (\<lambda>k. attempt_events (int k)) [0..<N])
             @ [(ReconnectLimitExceeded, NoArg), (ConnectionClosed, NoArg)]
       \<and> retryTimeout ((fire_retryTimeout (Rejected e) ^^ N)
                         (connection_failed signal (Rejected e) s)) = None
       \<and> keepAliveTimeout ((fire_retryTimeout (Rejected e) ^^ N)
                         (connection_failed signal (Rejected e) s)) = None
       \<and> armed ((fire_retryTimeout (Rejected e) ^^ N)
                         (connection_failed signal (Rejected e) s)) = []
       \<and> requests_made ((fire_retryTimeout (Rejected e) ^^ N)
                         (connection_failed signal (Rejected e) s))
           = requests_made s + N
       \<and> advance fired ((fire_retryTimeout (Rejected e) ^^ N)
                         (connection_failed signal (Rejected e) s))
           = (fire_retryTimeout (Rejected e) ^^ N) (connection_failed signal (Rejected e) s)"
proof -
  let ?final = "(fire_retryTimeout (Rejected e) ^^ N) (connection_failed signal (Rejected e) s)"
  have safe: "safeReconnectRetries s = int N"
    using assms(2) by (simp add: safeReconnectRetries_def)
  have entry: "connection_failed signal (Rejected e) s
                 = onConnectionError (Some (int N)) (Rejected e) (announce signal s)"
    by (simp add: connection_failed_eq onConnectionError_default safe)
  have start: "autoReconnect (announce signal s)" "stray_timers (announce signal s) = []"
    "int N \<le> safeReconnectRetries (announce signal s)"
    "safeReconnectRetries (announce signal s) \<le> 2 ^ 53"
    using assms(1,3,4) safe by simp_all
  note chain = retry_chain [OF start, where e = e, folded entry]
  from chain have "armed ?final = []" by blast
  then have still: "advance fired ?final = ?final"
    by (rule advance_nothing_armed)
  from chain still show ?thesis
    by (simp add: safe)
qed


theorem retry_limit_exceeded_witness:
  "autoReconnect (connected_stream 2) \<and> autoReconnectRetries (connected_stream 2) = Num (int 2)
   \<and> int 2 \<le> 2 ^ 53 \<and> stray_timers (connected_stream 2) = []
   \<and> emitted ((fire_retryTimeout (Rejected (Raised ''refused'')) ^^ 2)
                (connection_failed (TransportError (Raised ''reset''))
                   (Rejected (Raised ''refused'')) (connected_stream 2)))
       = [(Connected, NoArg),
          (ConnectionError, Val (Raised ''reset'')),
          (Error, ErrorPayload ConnectionError (Raised ''reset'')),
          (ReconnectAttempt, Tries 0), (ReconnectError, Tries 0),
          (Error, ErrorPayload ReconnectError (ReconnectErrorMessage 0)),
          (ReconnectAttempt, Tries 1), (ReconnectError, Tries 1),
          (Error, ErrorPayload ReconnectError (ReconnectErrorMessage 1)),
          (ReconnectLimitExceeded, NoArg), (ConnectionClosed, NoArg)]"
proof -
  have auto: "autoReconnect (connected_stream 2)"
    by (simp add: connected_stream_def connect_def)
  have budget: "autoReconnectRetries (connected_stream 2) = Num (int 2)"
    by (simp add: connected_stream_def connect_def)
  have small: "int 2 \<le> 2 ^ 53"
    by simp
  have tidy: "stray_timers (connected_stream 2) = []"
    by code_simp
  have before: "emitted (connected_stream 2) = [(Connected, NoArg)]"
    by code_simp
  have indices: "[0..<2] = [0, Suc 0]"
    by (simp add: upt_conv_Cons)
  from retry_limit_exceeded [OF auto budget small tidy, of "Raised ''refused''"
         "TransportError (Raised ''reset'')"]
  show ?thesis
    by (simp add: auto budget tidy before indices announced_def attempt_events_def)
qed

subsection \<open>Where the retry budget lives\<close>

text \<open>
  C1 (as stated) says that a successful automatic reconnect does not give the budget back,
  so that a later failure goes on counting. The run below refutes it: with a budget of 3,
  the connection closes, attempt 0 fails, the retry timer fires, attempt 1 succeeds
  (\<^verbatim>\<open>Reconnected\<close>); the connection closes again, and the attempt that follows is announced
  with index 0, not 2.
\<close>

theorem retry_budget_counterexample:
  "emitted (connection_failed TransportClose (Resolved fresh_request fresh_response)
          (fire_retryTimeout (Resolved fresh_request fresh_response)
             (connection_failed TransportClose (Rejected (Raised ''refused''))
                (connected_stream 3))))
   = [(Connected, NoArg),
      (ConnectionError, Val ConnectionClosedByTwitter),
      (Error, ErrorPayload ConnectionError ConnectionClosedByTwitter),
      (ReconnectAttempt, Tries 0),
      (ReconnectError, Tries 0),
      (Error, ErrorPayload ReconnectError (ReconnectErrorMessage 0)),
      (ReconnectAttempt, Tries 1),
      (Reconnected, NoArg),
      (ConnectionError, Val ConnectionClosedByTwitter),
      (Error, ErrorPayload ConnectionError ConnectionClosedByTwitter),
      (ReconnectAttempt, Tries 0),
      (Reconnected, NoArg)]"
  by code_simp

text \<open>
  C1 (amended). The budget is an argument of the failure handler, not a field. Every
  connection-failed signal enters the handler with the full budget: the attempt it starts is
  announced with index 0, whatever happened before. An attempt that is given the budget \<open>r\<close>
  and fails (nothing else running while it is suspended) sets a retry timer that carries
  \<open>r\<close>; when an armed retry timer that carries \<open>r\<close> fires, with
  \<open>1 < r \<le> budget \<le> 2\<^sup>5\<^sup>3\<close>, the next attempt is announced with index
  \<open>budget - r + 1\<close>.
\<close>

theorem every_failure_starts_at_attempt_zero:
  assumes "autoReconnect s" and "0 < safeReconnectRetries s"
  shows "attempts_announced (connection_failed signal outcome s) = attempts_announced s @ [0]
       \<and> (\<forall>r. 0 < r \<longrightarrow>
             retryTimeout (onConnectionError (Some r) (Rejected e) s)
               = Some \<lparr>timer_delay = min ((safeReconnectRetries s - r + 1) ^ 2 * 1000) 25000,
                       timer_retries = r\<rparr>)
       \<and> (\<forall>t. RetryTimer t \<in> set (armed s) \<and> 1 < timer_retries t
                \<and> timer_retries t \<le> safeReconnectRetries s \<and> safeReconnectRetries s \<le> 2 ^ 53 \<longrightarrow>
             attempts_announced (fire (RetryTimer t) outcome s)
               = attempts_announced s @ [safeReconnectRetries s - timer_retries t + 1])"
proof -
  have chain: "attempts_announced (onConnectionError (Some r) outcome' s')
                 = attempts_announced s' @ [js_sub (safeReconnectRetries s') r]"
    if "autoReconnect s'" and "0 < r" for r outcome' s'
  proof (cases outcome')
    case (Resolved q' p')
    show ?thesis
      unfolding Resolved
      by (rule trans [OF attempts_announced_append
                           [OF onConnectionError_successful_attempt(1) [OF that]]])
         simp
  next
    case (Rejected e')
    show ?thesis
      unfolding Rejected
      by (rule trans [OF attempts_announced_append
                           [OF onConnectionError_failed_attempt(1) [OF that]]])
         (simp add: attempt_events_def)
  qed
  have quiet: "attempts_announced (announce signal s) = attempts_announced s"
    using attempts_announced_append [OF announce_fields(1), of signal s]
    by (cases signal) (simp_all add: announced_def)
  have first: "attempts_announced (connection_failed signal outcome s) = attempts_announced s @ [0]"
    using assms chain [of "announce signal s" "safeReconnectRetries s" outcome]
    by (simp add: connection_failed_eq onConnectionError_default quiet)
  have rejected: "retryTimeout (onConnectionError (Some r) (Rejected e) s)
           = Some \<lparr>timer_delay = min ((safeReconnectRetries s - r + 1) ^ 2 * 1000) 25000,
                   timer_retries = r\<rparr>" if "0 < r" for r
    using assms(1) that by (rule onConnectionError_failed_attempt(2))
  have fired: "attempts_announced (fire (RetryTimer t) outcome s)
               = attempts_announced s @ [safeReconnectRetries s - timer_retries t + 1]"
    if "RetryTimer t \<in> set (armed s)" and "1 < timer_retries t"
      and "timer_retries t \<le> safeReconnectRetries s" and "safeReconnectRetries s \<le> 2 ^ 53" for t
  proof -
    let ?s = "s\<lparr>armed := remove1 (RetryTimer t) (armed s)\<rparr>"
    have less: "js_sub (timer_retries t) 1 = timer_retries t - 1"
      using that by (intro js_sub_exact) simp
    have index: "js_sub (safeReconnectRetries s) (timer_retries t - 1)
                   = safeReconnectRetries s - timer_retries t + 1"
      using that by (subst js_sub_exact) simp_all
    have same: "autoReconnect ?s" "safeReconnectRetries ?s = safeReconnectRetries s"
      "attempts_announced ?s = attempts_announced s"
      using assms(1) by (simp_all add: safeReconnectRetries_def attempts_announced_def emitted_def)
    have "attempts_announced (onConnectionError (Some (timer_retries t - 1)) outcome ?s)
            = attempts_announced ?s @ [js_sub (safeReconnectRetries ?s) (timer_retries t - 1)]"
      using same(1) that(2) by (intro chain) simp_all
    then show ?thesis
      using that(1) by (simp add: less same index)
  qed
  from first rejected fired show ?thesis by blast
qed

theorem every_failure_starts_at_attempt_zero_witness:
  "autoReconnect (connected_stream 3) \<and> 0 < safeReconnectRetries (connected_stream 3)
   \<and> attempts_announced
        (connection_failed TransportClose (Rejected (Raised ''refused'')) (connected_stream 3))
       = [0]
   \<and> retryTimeout
        (onConnectionError (Some 3) (Rejected (Raised ''refused'')) (connected_stream 3))
       = Some \<lparr>timer_delay = 1000, timer_retries = 3\<rparr>
   \<and> RetryTimer \<lparr>timer_delay = 1000, timer_retries = 3\<rparr>
        \<in> set (armed (connection_failed TransportClose (Rejected (Raised ''refused''))
                         (connected_stream 3)))
   \<and> attempts_announced
        (fire (RetryTimer \<lparr>timer_delay = 1000, timer_retries = 3\<rparr>)
           (Resolved fresh_request fresh_response)
           (connection_failed TransportClose (Rejected (Raised ''refused''))
              (connected_stream 3)))
       = [0, 1]"
proof -
  let ?s0 = "connected_stream 3"
  let ?s1 = "connection_failed TransportClose (Rejected (Raised ''refused'')) (connected_stream 3)"
  let ?t = "\<lparr>timer_delay = 1000, timer_retries = 3\<rparr>"
  have auto0: "autoReconnect ?s0" by code_simp
  have budget0: "safeReconnectRetries ?s0 = 3" by code_simp
  have before0: "attempts_announced ?s0 = []" by code_simp
  have auto1: "autoReconnect ?s1" by code_simp
  have budget1: "safeReconnectRetries ?s1 = 3" by code_simp
  have before1: "attempts_announced ?s1 = [0]" by code_simp
  have pending: "RetryTimer ?t \<in> set (armed ?s1)" by code_simp
  have positive0: "0 < safeReconnectRetries ?s0" by (subst budget0) simp
  have positive1: "0 < safeReconnectRetries ?s1" by (subst budget1) simp
  note started = every_failure_starts_at_attempt_zero
         [OF auto0 positive0, where signal = TransportClose
            and outcome = "Rejected (Raised ''refused'')" and e = "Raised ''refused''"]
  note continued = every_failure_starts_at_attempt_zero
         [OF auto1 positive1, where signal = TransportClose
            and outcome = "Resolved fresh_request fresh_response" and e = "Raised ''refused''"]
  from started have a: "attempts_announced ?s1 = attempts_announced ?s0 @ [0]"
    and b: "retryTimeout (onConnectionError (Some 3) (Rejected (Raised ''refused'')) ?s0)
              = Some \<lparr>timer_delay = min ((safeReconnectRetries ?s0 - 3 + 1) ^ 2 * 1000) 25000,
                      timer_retries = 3\<rparr>"
    by simp_all
  from continued pending have c: "attempts_announced (fire (RetryTimer ?t)
           (Resolved fresh_request fresh_response) ?s1)
       = attempts_announced ?s1 @ [safeReconnectRetries ?s1 - timer_retries ?t + 1]"
    by (simp add: budget1 del: connection_failed.simps fire.simps)
  from a b c show ?thesis
    by (simp add: auto0 budget0 before0 budget1 before1 pending
          del: connection_failed.simps fire.simps)
qed

subsection \<open>Messages of the parser\<close>

text \<open>
  C7. A parsed message that the error predicate classifies as erroneous is emitted as
  \<^verbatim>\<open>DataError\<close> immediately followed by \<^verbatim>\<open>Error\<close> with type \<^verbatim>\<open>DataError\<close> and the same
  payload, and not as \<^verbatim>\<open>Data\<close>; any other parsed message is emitted as \<^verbatim>\<open>Data\<close> only; a
  parse error is emitted as \<^verbatim>\<open>TweetParseError\<close> immediately followed by \<^verbatim>\<open>Error\<close>. In
  every case only the trace of the instance changes (session and timers are untouched), no
  collaborator other than the subscribers is called, and \<^verbatim>\<open>ConnectionClosed\<close> is not emitted.
\<close>

theorem parser_events_are_relayed:
  "emitted (onParserEvent (ParsedData eventData) s)
     = emitted s
       @ (if classified_as_error s eventData
          then [(DataError, Val eventData), (Error, ErrorPayload DataError eventData)]
          else [(Data, Val eventData)])
   \<and> emitted (onParserEvent (ParseError error) s)
     = emitted s @ [(TweetParseError, Val error), (Error, ErrorPayload TweetParseError error)]
   \<and> onParserEvent pe s = s\<lparr>trace := trace (onParserEvent pe s)\<rparr>
   \<and> actions (onParserEvent pe s) = actions s"
proof -
  have relay: "emitted (onParserEvent (ParsedData eventData) s)
     = emitted s
       @ (if classified_as_error s eventData
          then [(DataError, Val eventData), (Error, ErrorPayload DataError eventData)]
          else [(Data, Val eventData)])"
    by (simp add: onParsedData_def classified_as_error_def)
  have failed: "emitted (onParserEvent (ParseError error) s)
     = emitted s @ [(TweetParseError, Val error), (Error, ErrorPayload TweetParseError error)]"
    by (simp add: onParseError_def)
  have frame: "onParserEvent pe s = s\<lparr>trace := trace (onParserEvent pe s)\<rparr>"
    by (cases pe) (simp_all add: onParsedData_def onParseError_def emit_def)
  have quiet: "actions (onParserEvent pe s) = actions s"
    by (cases pe) (simp_all add: onParsedData_def onParseError_def)
  from relay failed frame quiet show ?thesis by blast
qed

subsection \<open>Chunks of the response\<close>

lemma fold_onParserEvent_frame:
  "fold onParserEvent notified s = s\<lparr>trace := trace (fold onParserEvent notified s)\<rparr>"
proof (induction notified arbitrary: s)
  case Nil
  show ?case by simp
next
  case (Cons pe notified)
  have step: "onParserEvent pe s = s\<lparr>trace := trace (onParserEvent pe s)\<rparr>"
    by (cases pe) (simp_all add: onParsedData_def onParseError_def emit_def)
  have "fold onParserEvent (pe # notified) s = fold onParserEvent notified (onParserEvent pe s)"
    by simp
  also have "\<dots> = (onParserEvent pe s)\<lparr>trace := trace (fold onParserEvent notified (onParserEvent pe s))\<rparr>"
    by (rule Cons.IH)
  also have "\<dots> = s\<lparr>trace := trace (fold onParserEvent notified (onParserEvent pe s))\<rparr>"
    by (subst step) simp
  finally show ?case by simp
qed

lemma actions_fold_onParserEvent [simp]:
  "actions (fold onParserEvent notified s) = actions s"
proof (induction notified arbitrary: s)
  case Nil
  show ?case by simp
next
  case (Cons pe notified)
  have "actions (onParserEvent pe s) = actions s"
    by (cases pe) (simp_all add: onParsedData_def onParseError_def)
  then show ?case by (simp add: Cons.IH)
qed

text \<open>
  C5. The listener of \<^verbatim>\<open>'data'\<close> first resets the keep-alive timer (clears it if pending,
  sets it unless the interval is \<^verbatim>\<open>Infinity\<close>) and only then looks at the chunk. For the
  keep-alive marker it emits \<^verbatim>\<open>DataKeepAlive\<close> and nothing else happens: the parser is not
  called, whatever it would have answered. Any other chunk is pushed to the parser, after the
  reset.
\<close>

theorem chunk_handling:
  "actions (onData chunk notified s)
     = actions s
       @ (case keepAliveTimeout s of Some t \<Rightarrow> [ClearKeepAliveTimeout] | None \<Rightarrow> [])
       @ (case keepAliveTimeoutMs s of Num ms \<Rightarrow> [SetKeepAliveTimeout ms] | Infinity \<Rightarrow> [])
       @ (if chunk = keep_alive_marker then [] else [ParserPush chunk])
   \<and> keepAliveTimeout (onData chunk notified s)
     = (case keepAliveTimeoutMs s of Num ms \<Rightarrow> Some ms | Infinity \<Rightarrow> None)
   \<and> trace (onData keep_alive_marker notified s)
     = trace s
       @ (case keepAliveTimeout s of Some t \<Rightarrow> [ClearKeepAliveTimeout] | None \<Rightarrow> [])
       @ (case keepAliveTimeoutMs s of Num ms \<Rightarrow> [SetKeepAliveTimeout ms] | Infinity \<Rightarrow> [])
       @ Emit DataKeepAlive NoArg
         # map (\<lambda>h. Deliver h DataKeepAlive NoArg) (listeners_of DataKeepAlive s)"
proof -
  have reset: "actions (resetKeepAliveTimeout s)
     = actions s
       @ (case keepAliveTimeout s of Some t \<Rightarrow> [ClearKeepAliveTimeout] | None \<Rightarrow> [])
       @ (case keepAliveTimeoutMs s of Num ms \<Rightarrow> [SetKeepAliveTimeout ms] | Infinity \<Rightarrow> [])"
    by (cases "keepAliveTimeout s"; cases "keepAliveTimeoutMs s") (simp_all add: actions_def)
  have pushed: "actions (s'\<lparr>trace := trace s' @ [ParserPush chunk]\<rparr>) = actions s' @ [ParserPush chunk]"
    for s' :: TweetStream
    by (simp add: actions_def)
  have acts: "actions (onData chunk notified s)
     = actions s
       @ (case keepAliveTimeout s of Some t \<Rightarrow> [ClearKeepAliveTimeout] | None \<Rightarrow> [])
       @ (case keepAliveTimeoutMs s of Num ms \<Rightarrow> [SetKeepAliveTimeout ms] | Infinity \<Rightarrow> [])
       @ (if chunk = keep_alive_marker then [] else [ParserPush chunk])"
    by (simp add: onData_def Let_def)
       (cases "keepAliveTimeout s"; cases "keepAliveTimeoutMs s"; simp add: actions_def)
  have timer: "keepAliveTimeout (onData chunk notified s)
     = (case keepAliveTimeoutMs s of Num ms \<Rightarrow> Some ms | Infinity \<Rightarrow> None)"
  proof (cases "chunk = keep_alive_marker")
    case True
    then show ?thesis by (simp add: onData_def Let_def)
  next
    case False
    have "keepAliveTimeout (fold onParserEvent notified s') = keepAliveTimeout s'" for s'
      by (subst fold_onParserEvent_frame) simp
    with False show ?thesis by (simp add: onData_def Let_def)
  qed
  have marker: "trace (onData keep_alive_marker notified s)
     = trace s
       @ (case keepAliveTimeout s of Some t \<Rightarrow> [ClearKeepAliveTimeout] | None \<Rightarrow> [])
       @ (case keepAliveTimeoutMs s of Num ms \<Rightarrow> [SetKeepAliveTimeout ms] | Infinity \<Rightarrow> [])
       @ Emit DataKeepAlive NoArg
         # map (\<lambda>h. Deliver h DataKeepAlive NoArg) (listeners_of DataKeepAlive s)"
    by (simp add: onData_def Let_def emit_def listeners_of_def)
  from acts timer marker show ?thesis by blast
qed

subsection \<open>Destroying\<close>

text \<open>
  C10. \<^verbatim>\<open>destroy\<close> removes every listener before it closes: the \<^verbatim>\<open>ConnectionClosed\<close> that
  \<^verbatim>\<open>close\<close> emits during \<^verbatim>\<open>destroy\<close> is delivered to no handler.
\<close>

theorem destroy_notifies_nobody:
  "listeners (destroy s) = []
   \<and> emitted (destroy s) = emitted s @ [(ConnectionClosed, NoArg)]
   \<and> delivered (destroy s) = delivered s"
  by (simp add: destroy_def close_def listeners_of_def)
     (simp add: removeAllListeners_def emitted_def delivered_def)

subsection \<open>Reconnecting\<close>

text \<open>
  C6. \<^verbatim>\<open>reconnect\<close> does, in this order: if a request exists and is not destroyed, the
  silent teardown (timers cleared, listeners of response and request removed, request
  destroyed; nothing emitted); the call of the connection factory; and, with the handle pair
  the factory resolves with, the \<^verbatim>\<open>Connected\<close> or \<^verbatim>\<open>Reconnected\<close> event, the reset of the
  parser, the binding of the four listeners to the new handles, and the arming of the
  keep-alive timer (unless its interval is \<^verbatim>\<open>Infinity\<close>). The parser is thus reset before
  the new response can push anything. When the factory rejects there is no new session:
  \<^verbatim>\<open>reconnect\<close> throws right after the call, and nothing is bound.
\<close>

theorem reconnect_order:
  "trace (snd (reconnect (Resolved q r) s))
     = trace s
       @ (if still_open s
          then (case retryTimeout s of Some t \<Rightarrow> [ClearRetryTimeout] | None \<Rightarrow> [])
               @ (case keepAliveTimeout s of Some t \<Rightarrow> [ClearKeepAliveTimeout] | None \<Rightarrow> [])
               @ (case res s of Some r' \<Rightarrow> [ResRemoveAllListeners] | None \<Rightarrow> [])
               @ [ReqRemoveAllListeners, ReqDestroy]
          else [])
       @ [MakeRequest]
       @ Emit (if req s = None then Connected else Reconnected) NoArg
         # map (\<lambda>h. Deliver h (if req s = None then Connected else Reconnected) NoArg)
             (listeners_of (if req s = None then Connected else Reconnected) s)
       @ [ParserReset]
       @ [ReqOn OnError, ResOn OnError, ResOn OnClose, ResOn OnData]
       @ (if still_open s then []
          else (case keepAliveTimeout s of Some t \<Rightarrow> [ClearKeepAliveTimeout] | None \<Rightarrow> []))
       @ (case keepAliveTimeoutMs s of Num ms \<Rightarrow> [SetKeepAliveTimeout ms] | Infinity \<Rightarrow> [])
   \<and> fst (reconnect (Resolved q r) s) = None
   \<and> req (snd (reconnect (Resolved q r) s))
       = Some (q\<lparr>req_listeners := req_listeners q @ [OnError]\<rparr>)
   \<and> res (snd (reconnect (Resolved q r) s))
       = Some (r\<lparr>res_listeners := res_listeners r @ [OnError, OnClose, OnData]\<rparr>)
   \<and> keepAliveTimeout (snd (reconnect (Resolved q r) s))
       = (case keepAliveTimeoutMs s of Num ms \<Rightarrow> Some ms | Infinity \<Rightarrow> None)
   \<and> fst (reconnect (Rejected e) s) = Some (RequestFailed e)
   \<and> trace (snd (reconnect (Rejected e) s))
       = trace s
         @ (if still_open s
            then (case retryTimeout s of Some t \<Rightarrow> [ClearRetryTimeout] | None \<Rightarrow> [])
                 @ (case keepAliveTimeout s of Some t \<Rightarrow> [ClearKeepAliveTimeout] | None \<Rightarrow> [])
                 @ (case res s of Some r' \<Rightarrow> [ResRemoveAllListeners] | None \<Rightarrow> [])
                 @ [ReqRemoveAllListeners, ReqDestroy]
            else [])
         @ [MakeRequest]"
proof -
  have teardown: "trace (teardown_if_open s)
     = trace s
       @ (if still_open s
          then (case retryTimeout s of Some t \<Rightarrow> [ClearRetryTimeout] | None \<Rightarrow> [])
               @ (case keepAliveTimeout s of Some t \<Rightarrow> [ClearKeepAliveTimeout] | None \<Rightarrow> [])
               @ (case res s of Some r' \<Rightarrow> [ResRemoveAllListeners] | None \<Rightarrow> [])
               @ [ReqRemoveAllListeners, ReqDestroy]
          else [])"
    by (cases "req s") (simp_all add: teardown_if_open_def still_open_def closeWithoutEmit_trace)
  have watchdog: "(case keepAliveTimeout (teardown_if_open s) of
                     Some t \<Rightarrow> [ClearKeepAliveTimeout] | None \<Rightarrow> [])
     = (if still_open s then []
        else (case keepAliveTimeout s of Some t \<Rightarrow> [ClearKeepAliveTimeout] | None \<Rightarrow> []))"
    by (cases "req s") (simp_all add: teardown_if_open_def still_open_def)
  have rejected: "trace (snd (reconnect (Rejected e) s)) = trace (teardown_if_open s) @ [MakeRequest]"
    by (simp add: reconnect_Rejected_eq)
  show ?thesis
    unfolding reconnect_Resolved_trace rejected teardown watchdog by simp
qed

subsection \<open>Closing\<close>

lemma close_fields [simp]:
  "retryTimeout (close s) = None"
  "keepAliveTimeout (close s) = None"
  "armed (close s) = stray_timers s"
  "req (close s) = map_option (\<lambda>q. q\<lparr>req_listeners := [], destroyed := True\<rparr>) (req s)"
  "res (close s) = map_option (\<lambda>r. r\<lparr>res_listeners := []\<rparr>) (res s)"
  "emitted (close s) = emitted s @ [(ConnectionClosed, NoArg)]"
  by (simp_all add: close_def) (simp add: stray_timers_def held_timers_def)

text \<open>
  What \<^verbatim>\<open>close\<close> does achieve: the timers that the fields hold are cleared, and when no
  other timer is armed nothing happens any more as time passes, unless a suspended attempt
  settles.
\<close>

lemma close_clears_held_timers:
  "stray_timers s = [] \<Longrightarrow> advance fired (close s) = close s"
  "stray_timers s = [] \<Longrightarrow> advance fired (destroy s) = destroy s"
  by (simp_all add: advance_nothing_armed destroy_def removeAllListeners_def
        stray_timers_def held_timers_def)

text \<open>
  \<^verbatim>\<open>close\<close> also misses a retry timer whose handle was overwritten. In
  \<open>overlapped_stream\<close> two retry timers are armed and the field holds one; \<^verbatim>\<open>close\<close>
  clears that one, and the other fires later.
\<close>

lemma close_misses_overwritten_timer:
  "armed overlapped_stream
     = [RetryTimer \<lparr>timer_delay = 1000, timer_retries = 3\<rparr>,
        RetryTimer \<lparr>timer_delay = 1000, timer_retries = 3\<rparr>]
   \<and> retryTimeout (close overlapped_stream) = None
   \<and> armed (close overlapped_stream) = [RetryTimer \<lparr>timer_delay = 1000, timer_retries = 3\<rparr>]
   \<and> emitted
        (advance [(RetryTimer \<lparr>timer_delay = 1000, timer_retries = 3\<rparr>,
                   Rejected (Raised ''refused''))]
           (close overlapped_stream))
     = [(Connected, NoArg),
        (ConnectionError, Val ConnectionClosedByTwitter),
        (Error, ErrorPayload ConnectionError ConnectionClosedByTwitter),
        (ReconnectAttempt, Tries 0),
        (Reconnected, NoArg),
        (ConnectionError, Val ConnectionClosedByTwitter),
        (Error, ErrorPayload ConnectionError ConnectionClosedByTwitter),
        (ReconnectAttempt, Tries 0),
        (ReconnectError, Tries 0),
        (Error, ErrorPayload ReconnectError (ReconnectErrorMessage 0)),
        (ReconnectError, Tries 0),
        (Error, ErrorPayload ReconnectError (ReconnectErrorMessage 0)),
        (ConnectionClosed, NoArg),
        (ReconnectAttempt, Tries 1),
        (ReconnectError, Tries 1),
        (Error, ErrorPayload ReconnectError (ReconnectErrorMessage 1))]"
  by code_simp

text \<open>
  C8. The claim is what \<^verbatim>\<open>close\<close> is documented to do (\<^verbatim>\<open>Terminate connection to
  Twitter\<close>) and what \<^verbatim>\<open>closeWithoutEmit\<close> sets out to do, but the code does not achieve it
  when \<^verbatim>\<open>close\<close> is called while a reconnect is suspended at its \<^verbatim>\<open>await\<close>.
  \<open>suspended_stream\<close> is in that situation, with \<^verbatim>\<open>retries = 3\<close> and
  \<^verbatim>\<open>initialConnection = false\<close>. \<^verbatim>\<open>close\<close> leaves no timer armed. When the request is
  then refused, the rest of the handler arms the retry timer, and its expiry emits
  \<^verbatim>\<open>ReconnectAttempt\<close> after \<^verbatim>\<open>ConnectionClosed\<close>. When the request instead succeeds, the
  instance is connected again, with the keep-alive timer armed.
\<close>

theorem close_during_reconnect:
  "fst (onConnectionError_enter None (announce TransportClose (connected_stream 3)))
     = Some (3, False)
   \<and> retryTimeout (close suspended_stream) = None
   \<and> keepAliveTimeout (close suspended_stream) = None
   \<and> armed (close suspended_stream) = []
   \<and> armed
        (onConnectionError_resume 3 False (Rejected (Raised ''refused'')) (close suspended_stream))
     = [RetryTimer \<lparr>timer_delay = 1000, timer_retries = 3\<rparr>]
   \<and> emitted
        (advance [(RetryTimer \<lparr>timer_delay = 1000, timer_retries = 3\<rparr>,
                   Rejected (Raised ''refused''))]
           (onConnectionError_resume 3 False (Rejected (Raised ''refused''))
              (close suspended_stream)))
     = [(Connected, NoArg),
        (ConnectionError, Val ConnectionClosedByTwitter),
        (Error, ErrorPayload ConnectionError ConnectionClosedByTwitter),
        (ReconnectAttempt, Tries 0),
        (ConnectionClosed, NoArg),
        (ReconnectError, Tries 0),
        (Error, ErrorPayload ReconnectError (ReconnectErrorMessage 0)),
        (ReconnectAttempt, Tries 1),
        (ReconnectError, Tries 1),
        (Error, ErrorPayload ReconnectError (ReconnectErrorMessage 1))]
   \<and> keepAliveTimeout
        (onConnectionError_resume 3 False (Resolved fresh_request fresh_response)
           (close suspended_stream))
     = Some 120000
   \<and> req (onConnectionError_resume 3 False (Resolved fresh_request fresh_response)
             (close suspended_stream))
     = Some \<lparr>destroyed = False, req_listeners = [OnError]\<rparr>"
  by code_simp

subsection \<open>Cloning\<close>

lemma set_first_occurrences [simp]: "set (first_occurrences xs) = set xs"
  by (induction xs) auto

lemma distinct_first_occurrences [simp]: "distinct (first_occurrences xs)"
  by (induction xs) auto

lemma register_all:
  "n < length H \<Longrightarrow>
   fold (\<lambda>callback H3. on_at n name callback H3) callbacks H
     = H[n := (H ! n)\<lparr>listeners := listeners (H ! n) @ map (Pair name) callbacks\<rparr>]"
proof (induction callbacks arbitrary: H)
  case Nil
  then show ?case by simp
next
  case (Cons callback callbacks)
  then show ?case by (simp add: on_at_def on_def)
qed

lemma register_all_names:
  assumes "n < length H" and "this < length H" and "this \<noteq> n"
  shows "fold (\<lambda>listener H2.
                 fold (\<lambda>callback H3. on_at n listener callback H3)
                   (listeners_of listener (H2 ! this)) H2) names H
           = H[n := (H ! n)\<lparr>listeners := listeners (H ! n)
                  @ concat (map (\<lambda>name. map (Pair name) (listeners_of name (H ! this))) names)\<rparr>]"
  using assms
proof (induction names arbitrary: H)
  case Nil
  then show ?case by simp
next
  case (Cons name names)
  let ?H = "H[n := (H ! n)\<lparr>listeners := listeners (H ! n) @ map (Pair name) (listeners_of name (H ! this))\<rparr>]"
  have len: "n < length ?H" "this < length ?H"
    using Cons.prems by simp_all
  have same: "?H ! this = H ! this"
    using Cons.prems by simp
  show ?case
    using Cons.prems
    by (simp add: register_all Cons.IH [OF len Cons.prems(3)] same)
qed

lemma filter_grouped:
  "distinct names \<Longrightarrow>
   filter (\<lambda>p. fst p = event) (concat (map (\<lambda>name. map (Pair name) (f name)) names))
     = (if event \<in> set names then map (Pair event) (f event) else [])"
proof (induction names)
  case Nil
  show ?case by simp
next
  case (Cons name names)
  have other: "filter (\<lambda>p. fst p = event) (map (Pair name) (f name)) = []" if "name \<noteq> event"
    using that by (simp add: filter_empty_conv)
  have this_one: "filter (\<lambda>p. fst p = event) (map (Pair event) (f event)) = map (Pair event) (f event)"
    by (simp add: filter_id_conv)
  show ?case
  proof (cases "name = event")
    case True
    with Cons show ?thesis by (simp add: this_one)
  next
    case False
    with Cons show ?thesis by (simp add: other)
  qed
qed

lemma listeners_of_unregistered:
  "event \<notin> fst ` set (listeners s) \<Longrightarrow> listeners_of event s = []"
  by (auto simp add: listeners_of_def filter_empty_conv)

text \<open>
  C9. When the request of \<^verbatim>\<open>clone\<close> succeeds, the result is a new instance at a fresh
  address; no existing instance changes; for every event name the handlers of the new
  instance are those it was constructed with followed by the handlers of the original, in
  the original's order; and emitting on either of the two instances leaves the other one
  (its trace included, hence the handlers called through it) unchanged.
\<close>

theorem clone_preserves_subscriptions:
  assumes "this < length H"
  shows "fst (clone (Inr fresh) this H) = Inr (length H)
       \<and> length (snd (clone (Inr fresh) this H)) = Suc (length H)
       \<and> (\<forall>p < length H. snd (clone (Inr fresh) this H) ! p = H ! p)
       \<and> (\<forall>event. listeners_of event (snd (clone (Inr fresh) this H) ! length H)
                     = listeners_of event fresh @ listeners_of event (H ! this))
       \<and> (\<forall>event a. emit_at this event a (snd (clone (Inr fresh) this H)) ! length H
                     = snd (clone (Inr fresh) this H) ! length H)
       \<and> (\<forall>event a. emit_at (length H) event a (snd (clone (Inr fresh) this H)) ! this
                     = snd (clone (Inr fresh) this H) ! this)"
proof -
  let ?n = "length H"
  let ?H1 = "H @ [fresh]"
  let ?names = "eventNames (H ! this)"
  let ?pairs = "concat (map (\<lambda>name. map (Pair name) (listeners_of name (H ! this))) ?names)"
  have orig: "?H1 ! this = H ! this"
    using assms by (simp add: nth_append)
  have heap: "snd (clone (Inr fresh) this H)
                = ?H1[?n := fresh\<lparr>listeners := listeners fresh @ ?pairs\<rparr>]"
    using assms register_all_names [of ?n ?H1 this ?names]
    by (simp add: clone_def Let_def orig)
  have result: "fst (clone (Inr fresh) this H) = Inr ?n"
    by (simp add: clone_def Let_def)
  have others: "snd (clone (Inr fresh) this H) ! p = H ! p" if "p < ?n" for p
    using that by (simp add: heap nth_append)
  have new: "snd (clone (Inr fresh) this H) ! ?n = fresh\<lparr>listeners := listeners fresh @ ?pairs\<rparr>"
    by (simp add: heap)
  have copied: "listeners_of event (snd (clone (Inr fresh) this H) ! ?n)
                  = listeners_of event fresh @ listeners_of event (H ! this)" for event
  proof -
    have "filter (\<lambda>p. fst p = event) ?pairs
            = (if event \<in> set ?names then map (Pair event) (listeners_of event (H ! this)) else [])"
      by (rule filter_grouped) (simp add: eventNames_def)
    moreover have "listeners_of event (H ! this) = []" if "event \<notin> set ?names"
      using that by (intro listeners_of_unregistered) (simp add: eventNames_def)
    ultimately have "map snd (filter (\<lambda>p. fst p = event) ?pairs) = listeners_of event (H ! this)"
      by (auto simp add: comp_def)
    then show ?thesis
      by (simp add: new listeners_of_def)
  qed
  have apart1: "emit_at this event a (snd (clone (Inr fresh) this H)) ! ?n
                  = snd (clone (Inr fresh) this H) ! ?n" for event a
    using assms by (simp add: emit_at_def heap)
  have apart2: "emit_at ?n event a (snd (clone (Inr fresh) this H)) ! this
                  = snd (clone (Inr fresh) this H) ! this" for event a
    using assms by (simp add: emit_at_def heap nth_append)
  from result heap others copied apart1 apart2 show ?thesis
    by simp
qed

theorem clone_preserves_subscriptions_witness:
  "(0::nat) < length [subscribed_stream]
   \<and> fst (clone (Inr sample_stream) 0 [subscribed_stream]) = Inr 1
   \<and> listeners_of Data (snd (clone (Inr sample_stream) 0 [subscribed_stream]) ! 1) = [3, 1]
   \<and> listeners_of Error (snd (clone (Inr sample_stream) 0 [subscribed_stream]) ! 1) = [2]
   \<and> snd (clone (Inr sample_stream) 0 [subscribed_stream]) ! 0 = subscribed_stream"
proof -
  have valid: "(0::nat) < length [subscribed_stream]"
    by simp
  have none: "listeners_of event sample_stream = []" for event
    by (simp add: sample_stream_def new_TweetStream_def initEventsFromRequest_def listeners_of_def)
  have data: "listeners_of Data subscribed_stream = [3, 1]"
    by (simp add: subscribed_stream_def on_def listeners_of_def)
       (simp add: sample_stream_def new_TweetStream_def initEventsFromRequest_def)
  have error: "listeners_of Error subscribed_stream = [2]"
    by (simp add: subscribed_stream_def on_def listeners_of_def)
       (simp add: sample_stream_def new_TweetStream_def initEventsFromRequest_def)
  from clone_preserves_subscriptions [OF valid, of sample_stream]
  show ?thesis
    by (simp add: none data error)
qed

end
